theory Spec2Isabelle
  imports Complex_Main "HOL-Library.Word"
begin

section \<open>JavaScript values\<close>

text \<open>
  The dashboard script exists in two versions: \<^verbatim>\<open>src/static/js/app.js\<close> and the later
  \<^verbatim>\<open>src/unnamed/part_000\<close>. A definition without suffix embeds the function of that name in
  \<^verbatim>\<open>app.js\<close>; the suffix \<open>_part000\<close> marks the function of the same name in
  \<^verbatim>\<open>part_000\<close>.

  A JavaScript string is a sequence of UTF-16 code units, and \<^verbatim>\<open>.length\<close> counts code units.
  ASCII text is written \<open>js ''...''\<close>; Korean text and symbols are written as code units.
\<close>

type_synonym jsstring = "16 word list"

definition js :: "string \<Rightarrow> jsstring" where
  "js s = map of_char s"

text \<open>
  Numbers are IEEE doubles. The scripts never compute with them: they test them for
  truthiness and hand them to the browser's parsing and formatting functions. The model
  keeps the special values apart and leaves the digits to the runtime (see below).
\<close>

datatype jsnum = NaN | PosInfinity | NegInfinity | NegZero | Finite rat

text \<open>
  The values the scripts handle are the results of \<^verbatim>\<open>response.json()\<close> and of reading
  fields of such results: \<^verbatim>\<open>undefined\<close>, \<^verbatim>\<open>null\<close>, booleans, numbers, strings, arrays
  and plain objects. An object is the list of its own properties in insertion order; a later
  entry for a key overrides an earlier one, as \<^verbatim>\<open>JSON.parse\<close> does.
\<close>

datatype jsval =
    JUndefined
  | JNull
  | JBool bool
  | JNum jsnum
  | JStr jsstring
  | JArr "jsval list"
  | JObj "(jsstring \<times> jsval) list"

datatype exn =
    TypeError
  | ReferenceError
  | RangeError
  | FetchFailed
  | JsonSyntaxError
  | HttpError nat

text \<open>\<^verbatim>\<open>if (v)\<close>, \<^verbatim>\<open>!v\<close>, \<^verbatim>\<open>a && b\<close>: the truthiness of a value.\<close>

fun truthy :: "jsval \<Rightarrow> bool" where
  "truthy JUndefined = False"
| "truthy JNull = False"
| "truthy (JBool b) = b"
| "truthy (JNum n) = (n \<noteq> NaN \<and> n \<noteq> NegZero \<and> n \<noteq> Finite 0)"
| "truthy (JStr s) = (s \<noteq> [])"
| "truthy (JArr xs) = True"
| "truthy (JObj kvs) = True"

text \<open>
  \<^verbatim>\<open>v.k\<close> for the field names the scripts read (\<^verbatim>\<open>success\<close>, \<^verbatim>\<open>authenticated\<close>,
  \<^verbatim>\<open>message\<close>, \<^verbatim>\<open>data\<close>, \<^verbatim>\<open>stock_code\<close>; none of them is a property of a prototype):
  a TypeError on \<^verbatim>\<open>null\<close> and \<^verbatim>\<open>undefined\<close>, the own property of an object, and
  \<^verbatim>\<open>undefined\<close> everywhere else.
\<close>

fun getProp :: "jsval \<Rightarrow> jsstring \<Rightarrow> exn + jsval" where
  "getProp JUndefined k = Inl TypeError"
| "getProp JNull k = Inl TypeError"
| "getProp (JObj kvs) k =
     Inr (case map_of (rev kvs) k of None \<Rightarrow> JUndefined | Some v \<Rightarrow> v)"
| "getProp v k = Inr JUndefined"

subsection \<open>The browser's number and date functions\<close>

text \<open>
  What the browser computes on doubles and dates is not code of this repository, and it is
  floating-point and locale work: it is a parameter of the model. \<open>StringToNumber s\<close> is the
  double denoted by the longest prefix of \<open>s\<close> that is a decimal literal;
  \<open>toLocaleDateString_koKR v\<close> stands for
  \<^verbatim>\<open>new Date(v).toLocaleDateString('ko-KR')\<close> and may raise, as the \<^verbatim>\<open>try\<close> around it
  in the source provides for.
\<close>

record runtime =
  NumberToString :: "jsnum \<Rightarrow> jsstring"
  StringToNumber :: "jsstring \<Rightarrow> jsnum"
  toLocaleString_koKR :: "jsnum \<Rightarrow> jsstring"
  toFixed2 :: "jsnum \<Rightarrow> jsstring"
  toLocaleDateString_koKR :: "jsval \<Rightarrow> exn + jsstring"
  toLocaleTimeString_koKR :: "jsval \<Rightarrow> exn + jsstring"

fun join :: "jsstring \<Rightarrow> jsstring list \<Rightarrow> jsstring" where
  "join sep [] = []"
| "join sep [s] = s"
| "join sep (s # t # ss) = s @ sep @ join sep (t # ss)"

text \<open>
  The abstract operation ToString, applied by \<^verbatim>\<open>parseFloat\<close> and by template literals.
  An array is joined with commas, \<^verbatim>\<open>null\<close> and \<^verbatim>\<open>undefined\<close> elements giving the empty
  string. A plain object gives \<^verbatim>\<open>[object Object]\<close> through \<^verbatim>\<open>Object.prototype.toString\<close>,
  unless it has an own property \<^verbatim>\<open>toString\<close>: a value from JSON is never callable, the
  conversion falls through to \<^verbatim>\<open>valueOf\<close>, which returns the object, and ends in a
  TypeError.
\<close>

fun ToString :: "runtime \<Rightarrow> jsval \<Rightarrow> exn + jsstring"
  and ToStringElements :: "runtime \<Rightarrow> jsval list \<Rightarrow> exn + jsstring list" where
  "ToString rt JUndefined = Inr (js ''undefined'')"
| "ToString rt JNull = Inr (js ''null'')"
| "ToString rt (JBool b) = Inr (if b then js ''true'' else js ''false'')"
| "ToString rt (JNum n) = Inr (NumberToString rt n)"
| "ToString rt (JStr s) = Inr s"
| "ToString rt (JArr xs) =
     (case ToStringElements rt xs of
        Inl e \<Rightarrow> Inl e
      | Inr ss \<Rightarrow> Inr (join (js '','') ss))"
| "ToString rt (JObj kvs) =
     (if js ''toString'' \<in> fst ` set kvs then Inl TypeError
      else Inr (js ''[object Object]''))"
| "ToStringElements rt [] = Inr []"
| "ToStringElements rt (x # xs) =
     (case (if x = JUndefined \<or> x = JNull then Inr [] else ToString rt x) of
        Inl e \<Rightarrow> Inl e
      | Inr s \<Rightarrow>
          (case ToStringElements rt xs of
             Inl e \<Rightarrow> Inl e
           | Inr ss \<Rightarrow> Inr (s # ss)))"

text \<open>
  \<^verbatim>\<open>parseFloat(v)\<close>: ToString, leading white space and line terminators dropped, then the
  longest prefix that is a decimal literal (an optional sign, then \<^verbatim>\<open>Infinity\<close>, digits, or
  a dot followed by a digit). With no such prefix the result is NaN.
\<close>

definition isStrWhiteSpaceChar :: "16 word \<Rightarrow> bool" where
  "isStrWhiteSpaceChar c \<longleftrightarrow>
     c \<in> set [0x0009, 0x000A, 0x000B, 0x000C, 0x000D, 0x0020, 0x00A0, 0x1680,
              0x2000, 0x2001, 0x2002, 0x2003, 0x2004, 0x2005, 0x2006, 0x2007,
              0x2008, 0x2009, 0x200A, 0x2028, 0x2029, 0x202F, 0x205F, 0x3000, 0xFEFF]"

definition isDecimalDigit :: "16 word \<Rightarrow> bool" where
  "isDecimalDigit c \<longleftrightarrow> 0x30 \<le> c \<and> c \<le> 0x39"

fun startsPrefix :: "'a list \<Rightarrow> 'a list \<Rightarrow> bool" where
  "startsPrefix [] ys = True"
| "startsPrefix (x # xs) [] = False"
| "startsPrefix (x # xs) (y # ys) = (x = y \<and> startsPrefix xs ys)"

fun startsUnsignedDecimalLiteral :: "jsstring \<Rightarrow> bool" where
  "startsUnsignedDecimalLiteral [] = False"
| "startsUnsignedDecimalLiteral [c] = isDecimalDigit c"
| "startsUnsignedDecimalLiteral (c # d # cs) =
     (isDecimalDigit c \<or> (c = 0x2E \<and> isDecimalDigit d) \<or>
      startsPrefix (js ''Infinity'') (c # d # cs))"

fun dropSign :: "jsstring \<Rightarrow> jsstring" where
  "dropSign [] = []"
| "dropSign (c # cs) = (if c = 0x2B \<or> c = 0x2D then cs else c # cs)"

definition parseFloatString :: "runtime \<Rightarrow> jsstring \<Rightarrow> jsnum" where
  "parseFloatString rt inputString =
     (let trimmedString = dropWhile isStrWhiteSpaceChar inputString
      in if startsUnsignedDecimalLiteral (dropSign trimmedString)
         then StringToNumber rt trimmedString
         else NaN)"

definition parseFloat :: "runtime \<Rightarrow> jsval \<Rightarrow> exn + jsnum" where
  "parseFloat rt v =
     (case ToString rt v of
        Inl e \<Rightarrow> Inl e
      | Inr inputString \<Rightarrow> Inr (parseFloatString rt inputString))"

section \<open>Formatting helpers\<close>

subsection \<open>\<^verbatim>\<open>src/static/js/app.js\<close>\<close>

definition formatNumber :: "runtime \<Rightarrow> jsval \<Rightarrow> exn + jsstring" where
  "formatNumber rt num =
     (if num = JNull \<or> num = JUndefined \<or> num = JStr [] then Inr (js ''0'')
      else case parseFloat rt num of
             Inl e \<Rightarrow> Inl e
           | Inr number \<Rightarrow>
               if number = NaN then Inr (js ''0'')
               else Inr (toLocaleString_koKR rt number))"

text \<open>The suffix is the Korean currency word, the single code unit U+C6D0.\<close>

definition formatCurrency :: "runtime \<Rightarrow> jsval \<Rightarrow> exn + jsstring" where
  "formatCurrency rt amount =
     (case formatNumber rt amount of
        Inl e \<Rightarrow> Inl e
      | Inr s \<Rightarrow> Inr (s @ [0xC6D0]))"

definition formatPercentage :: "runtime \<Rightarrow> jsval \<Rightarrow> exn + jsstring" where
  "formatPercentage rt rate =
     (if rate = JNull \<or> rate = JUndefined \<or> rate = JStr [] then Inr (js ''0.00%'')
      else case parseFloat rt rate of
             Inl e \<Rightarrow> Inl e
           | Inr number \<Rightarrow>
               if number = NaN then Inr (js ''0.00%'')
               else Inr (toFixed2 rt number @ js ''%''))"

text \<open>
  \<^verbatim>\<open>formatDate\<close> and \<^verbatim>\<open>formatTime\<close> return the argument itself when the conversion raises,
  so their result is a value, not always a string.
\<close>

definition formatDate :: "runtime \<Rightarrow> jsval \<Rightarrow> jsval" where
  "formatDate rt dateString =
     (if \<not> truthy dateString then JStr (js ''-'')
      else case toLocaleDateString_koKR rt dateString of
             Inr s \<Rightarrow> JStr s
           | Inl error \<Rightarrow> dateString)"

definition formatTime :: "runtime \<Rightarrow> jsval \<Rightarrow> jsval" where
  "formatTime rt timeString =
     (if \<not> truthy timeString then JStr (js ''-'')
      else case toLocaleTimeString_koKR rt timeString of
             Inr s \<Rightarrow> JStr s
           | Inl error \<Rightarrow> timeString)"

subsection \<open>\<^verbatim>\<open>src/unnamed/part_000\<close>\<close>

definition formatNumber_part000 :: "runtime \<Rightarrow> jsval \<Rightarrow> exn + jsstring" where
  "formatNumber_part000 rt num =
     (if num = JNull \<or> num = JUndefined \<or> num = JStr [] then Inr (js ''0'')
      else case parseFloat rt num of
             Inl e \<Rightarrow> Inl e
           | Inr number \<Rightarrow>
               if number = NaN then Inr (js ''0'')
               else Inr (toLocaleString_koKR rt number))"

definition formatCurrency_part000 :: "runtime \<Rightarrow> jsval \<Rightarrow> exn + jsstring" where
  "formatCurrency_part000 rt amount =
     (case formatNumber_part000 rt amount of
        Inl e \<Rightarrow> Inl e
      | Inr s \<Rightarrow> Inr (s @ [0xC6D0]))"

definition formatPercentage_part000 :: "runtime \<Rightarrow> jsval \<Rightarrow> exn + jsstring" where
  "formatPercentage_part000 rt rate =
     (if rate = JNull \<or> rate = JUndefined \<or> rate = JStr [] then Inr (js ''0.00%'')
      else case parseFloat rt rate of
             Inl e \<Rightarrow> Inl e
           | Inr number \<Rightarrow>
               if number = NaN then Inr (js ''0.00%'')
               else Inr (toFixed2 rt number @ js ''%''))"

definition formatDate_part000 :: "runtime \<Rightarrow> jsval \<Rightarrow> jsval" where
  "formatDate_part000 rt dateString =
     (if \<not> truthy dateString then JStr (js ''-'')
      else case toLocaleDateString_koKR rt dateString of
             Inr s \<Rightarrow> JStr s
           | Inl error \<Rightarrow> dateString)"

definition formatTime_part000 :: "runtime \<Rightarrow> jsval \<Rightarrow> jsval" where
  "formatTime_part000 rt timeString =
     (if \<not> truthy timeString then JStr (js ''-'')
      else case toLocaleTimeString_koKR rt timeString of
             Inr s \<Rightarrow> JStr s
           | Inl error \<Rightarrow> timeString)"

section \<open>The page, the timers and the outside world\<close>

text \<open>
  The scripts run against a page whose template is not part of the sources. The elements
  they look up are therefore part of the state, each present or absent:
  \<^verbatim>\<open>getElementById\<close> returns \<^verbatim>\<open>null\<close> for an absent element, and assigning to a property
  of \<^verbatim>\<open>null\<close> raises a TypeError. Console output is not modelled.
\<close>

datatype handler = Login | Logout

record button =
  btn_innerHTML :: jsstring
  btn_onclick :: "handler option"

record alert =
  alert_id :: nat
  alert_className :: jsstring
  alert_innerHTML :: jsstring

text \<open>
  The login progress dialog of \<^verbatim>\<open>part_000\<close>: the parts of the inserted markup that the
  script later reads or changes, whether a Bootstrap dialog object has been made for it, whether
  it is shown, and whether it is to be removed once hidden.
\<close>

record modal =
  progressMessage_text :: jsstring
  progressMessage_className :: jsstring
  progressBar_className :: jsstring
  progressBar_width :: jsstring
  progressDetail_text :: jsstring
  modal_instance :: bool
  modal_shown :: bool
  modal_remove_when_hidden :: bool

text \<open>
  The callbacks handed to \<^verbatim>\<open>setTimeout\<close> and \<^verbatim>\<open>setInterval\<close>, by the place that
  creates them: the removal of an alert (\<^verbatim>\<open>showAlert\<close>), the refresh after a login and the
  reload after a logout of \<^verbatim>\<open>app.js\<close> (\<open>login_timeout\<close>, \<open>logout_timeout\<close> below), the
  closing of the progress dialog after a login and the status check after a logout of
  \<^verbatim>\<open>part_000\<close> (\<open>login_timeout_part000\<close>, \<open>logout_timeout_part000\<close>), the auto refresh
  (\<open>autoRefresh_tick\<close>) and the progress animation with its step counter.
\<close>

datatype task =
    RemoveAlert nat
  | LoginRefresh
  | LogoutReload
  | LoginSuccessClose
  | LogoutRecheck
  | AutoRefresh
  | LoginProgressAnimation nat

record request_init =
  init_method :: "jsstring option"
  init_headers :: "(jsstring \<times> jsstring) list"
  init_body :: "jsstring option"

text \<open>
  What the script does to the world outside its own variables and the page, in order:
  requests sent, calls of functions that other page scripts define, page reloads. The calls
  of \<^verbatim>\<open>updateRealTimeData\<close> and \<^verbatim>\<open>displayStockInfo\<close>, whose bodies are placeholders in
  the source, are recorded here as well.
\<close>

datatype event =
    Fetch jsstring request_init
  | RefreshDashboard
  | LocationReload
  | UpdateRealTimeData jsval
  | DisplayStockInfo jsval

datatype socket_handler =
    OnConnect | OnDisconnect | OnStatus | OnUpdate | OnSubscribed

record state =
  isAuthenticated :: jsval
  socket :: "(jsstring \<times> socket_handler) list option"
  refreshInterval :: "nat option"
  refreshDashboard_defined :: bool
  io_loaded :: bool
  bootstrap_loaded :: bool
  auth_btn :: "button option"
  connection_status :: "jsstring option"
  alert_container :: "alert list option"
  loading_spinner :: "bool option"
  loginProgressModal :: "modal option"
  account_info :: "jsstring option"
  portfolio_summary :: "jsstring option"
  recent_orders :: "jsstring option"
  trading_diary :: "jsstring option"
  next_node :: nat
  timeouts :: "(nat \<times> task) list"
  intervals :: "(nat \<times> task) list"
  trace :: "event list"

text \<open>
  A response as \<^verbatim>\<open>fetch\<close> delivers it; \<open>json_body\<close> is \<open>None\<close> when the body is not JSON
  and \<^verbatim>\<open>response.json()\<close> rejects. A request that fails on the network has no response.
  An \<^verbatim>\<open>async\<close> function is modelled from its call to its return with the outcome of its
  request as an argument; other handlers running while it waits are not modelled.
\<close>

record response =
  ok :: bool
  status :: nat
  json_body :: "jsval option"

text \<open>A statement sequence: the second statement runs when the first did not raise.\<close>

definition andThen ::
  "state \<times> exn option \<Rightarrow> (state \<Rightarrow> state \<times> exn option) \<Rightarrow> state \<times> exn option" where
  "andThen r f = (case r of (s, None) \<Rightarrow> f s | (s, Some e) \<Rightarrow> (s, Some e))"

definition jsonHeaders :: "(jsstring \<times> jsstring) list" where
  "jsonHeaders = [(js ''Content-Type'', js ''application/json'')]"

definition postJson :: request_init where
  "postJson = \<lparr>init_method = Some (js ''POST''), init_headers = jsonHeaders, init_body = None\<rparr>"

definition plainGet :: request_init where
  "plainGet = \<lparr>init_method = None, init_headers = [], init_body = None\<rparr>"

definition fetch :: "state \<Rightarrow> jsstring \<Rightarrow> request_init \<Rightarrow> state" where
  "fetch s url init = s\<lparr>trace := trace s @ [Fetch url init]\<rparr>"

section \<open>Shared page functions of \<^verbatim>\<open>src/static/js/app.js\<close>\<close>

definition showLoading :: "state \<Rightarrow> bool \<Rightarrow> state" where
  "showLoading s show =
     (case loading_spinner s of
        None \<Rightarrow> s
      | Some d_none \<Rightarrow> s\<lparr>loading_spinner := Some (\<not> show)\<rparr>)"

text \<open>\<^verbatim>\<open>String.prototype.replace\<close> with a global pattern that matches one fixed text.\<close>

function replaceAll :: "jsstring \<Rightarrow> jsstring \<Rightarrow> jsstring \<Rightarrow> jsstring" where
  "replaceAll pat rep [] = []"
| "replaceAll pat rep (c # cs) =
     (if pat \<noteq> [] \<and> startsPrefix pat (c # cs)
      then rep @ replaceAll pat rep (drop (length pat) (c # cs))
      else c # replaceAll pat rep cs)"
  by pat_completeness auto
termination
  by (relation "measure (\<lambda>(pat, rep, s). length s)") auto

definition formatMessage :: "jsstring \<Rightarrow> jsstring" where
  \<open>formatMessage message =
     replaceAll [0x2139, 0xFE0F] (js ''<i class="fas fa-info-circle text-info me-1"></i>'')
      (replaceAll [0x26A0, 0xFE0F]
          (js ''<i class="fas fa-exclamation-triangle text-warning me-1"></i>'')
        (replaceAll [0x274C] (js ''<i class="fas fa-times-circle text-danger me-1"></i>'')
          (replaceAll [0x2705] (js ''<i class="fas fa-check-circle text-success me-1"></i>'')
            (replaceAll [0x000A] (js ''<br>'') message))))\<close>

definition alertHTML :: "jsstring \<Rightarrow> jsstring" where
  \<open>alertHTML formattedMessage =
     [0x000A] @ js ''        <div class="d-flex align-items-start">'' @
     [0x000A] @ js ''            <div class="flex-grow-1">'' @
     [0x000A] @ js ''                '' @ formattedMessage @
     [0x000A] @ js ''            </div>'' @
     [0x000A] @ js ''            <button type="button" class="btn-close" data-bs-dismiss="alert" aria-label="Close"></button>'' @
     [0x000A] @ js ''        </div>'' @
     [0x000A] @ js ''    ''\<close>

text \<open>
  \<^verbatim>\<open>showAlert(message, type, duration)\<close>. The container is looked up and the new element is
  built before anything on the page changes: \<^verbatim>\<open>message.replace\<close> raises a TypeError when
  the message is not a string, \<^verbatim>\<open>appendChild\<close> raises when there is no container, and in
  both cases the page is as before. No caller passes a duration, so it is the default 5000.
\<close>

definition showAlert :: "state \<Rightarrow> jsval \<Rightarrow> jsstring \<Rightarrow> nat \<Rightarrow> state \<times> exn option" where
  "showAlert s message type duration =
     (case message of
        JStr m \<Rightarrow>
          (case alert_container s of
             None \<Rightarrow> (s, Some TypeError)
           | Some children \<Rightarrow>
               (let alertDiv =
                      \<lparr>alert_id = next_node s,
                       alert_className =
                         js ''alert alert-'' @ type @ js '' alert-dismissible fade show'',
                       alert_innerHTML = alertHTML (formatMessage m)\<rparr>
                in (s\<lparr>alert_container := Some (children @ [alertDiv]),
                      next_node := Suc (next_node s),
                      timeouts := timeouts s @ [(duration, RemoveAlert (alert_id alertDiv))]\<rparr>,
                    None)))
      | _ \<Rightarrow> (s, Some TypeError))"

definition LOGOUT_BUTTON :: jsstring where
  \<open>LOGOUT_BUTTON = js ''<i class="fas fa-sign-out-alt me-1"></i>'' @ [0xB85C, 0xADF8, 0xC544, 0xC6C3]\<close>

definition LOGIN_BUTTON :: jsstring where
  \<open>LOGIN_BUTTON = js ''<i class="fas fa-sign-in-alt me-1"></i>'' @ [0xB85C, 0xADF8, 0xC778]\<close>

definition STATUS_CONNECTED :: jsstring where
  \<open>STATUS_CONNECTED = js ''<i class="fas fa-circle text-success me-1"></i>'' @ [0xC5F0, 0xACB0, 0xB428]\<close>

definition STATUS_DISCONNECTED :: jsstring where
  \<open>STATUS_DISCONNECTED =
     js ''<i class="fas fa-circle text-danger me-1"></i>'' @ [0xC5F0, 0xACB0] @ js '' '' @ [0xB04A, 0xAE40]\<close>

text \<open>
  \<^verbatim>\<open>updateAuthUI(authenticated)\<close>: the button first, then the connection label, so a page
  with the button but without the label is left with the button changed.
\<close>

definition updateAuthUI :: "state \<Rightarrow> jsval \<Rightarrow> state \<times> exn option" where
  "updateAuthUI s authenticated =
     (case auth_btn s of
        None \<Rightarrow> (s, Some TypeError)
      | Some authBtn \<Rightarrow>
          (let s1 = s\<lparr>auth_btn := Some (authBtn\<lparr>
                         btn_innerHTML := (if truthy authenticated then LOGOUT_BUTTON else LOGIN_BUTTON),
                         btn_onclick := Some (if truthy authenticated then Logout else Login)\<rparr>)\<rparr>
           in case connection_status s1 of
                None \<Rightarrow> (s1, Some TypeError)
              | Some old \<Rightarrow>
                  (s1\<lparr>connection_status :=
                        Some (if truthy authenticated then STATUS_CONNECTED
                              else STATUS_DISCONNECTED)\<rparr>, None)))"

section \<open>\<^verbatim>\<open>apiRequest\<close> of \<^verbatim>\<open>src/static/js/app.js\<close>\<close>

record request_options =
  opt_method :: "jsstring option"
  opt_headers :: "(jsstring \<times> jsstring) list option"
  opt_body :: "jsstring option"

text \<open>
  The second argument of \<^verbatim>\<open>fetch\<close>: the merged headers, then every field of \<^verbatim>\<open>options\<close>
  spread over them, so that \<^verbatim>\<open>options.headers\<close>, when given, replaces the merged headers.
\<close>

definition apiRequestInit :: "request_options \<Rightarrow> request_init" where
  "apiRequestInit options =
     (let merged = jsonHeaders @ (case opt_headers options of None \<Rightarrow> [] | Some h \<Rightarrow> h)
      in \<lparr>init_method = opt_method options,
          init_headers = (case opt_headers options of None \<Rightarrow> merged | Some h \<Rightarrow> h),
          init_body = opt_body options\<rparr>)"

definition SESSION_EXPIRED :: jsstring where
  "SESSION_EXPIRED =
     [0xC138, 0xC158, 0xC774] @ js '' '' @
     [0xB9CC, 0xB8CC, 0xB418, 0xC5C8, 0xC2B5, 0xB2C8, 0xB2E4] @ js ''. '' @ [0xB2E4, 0xC2DC] @
     js '' '' @ [0xB85C, 0xADF8, 0xC778, 0xD574, 0xC8FC, 0xC138, 0xC694] @ js ''.''"

text \<open>
  The \<^verbatim>\<open>catch\<close> block logs and throws the same error again, so every error of the body is
  the error of the call. \<^verbatim>\<open>data.authenticated\<close> is read only when \<^verbatim>\<open>data.success\<close> is
  \<^verbatim>\<open>false\<close>; by then \<^verbatim>\<open>data\<close> is known not to be \<^verbatim>\<open>null\<close>.
\<close>

definition apiRequest ::
  "state \<Rightarrow> jsstring \<Rightarrow> request_options \<Rightarrow> response option \<Rightarrow> state \<times> (exn + jsval)" where
  "apiRequest s url options outcome =
     (let s0 = fetch s url (apiRequestInit options)
      in case outcome of
           None \<Rightarrow> (s0, Inl FetchFailed)
         | Some response \<Rightarrow>
             if \<not> ok response then (s0, Inl (HttpError (status response)))
             else
               (case json_body response of
                  None \<Rightarrow> (s0, Inl JsonSyntaxError)
                | Some data \<Rightarrow>
                    (case getProp data (js ''success'') of
                       Inl e \<Rightarrow> (s0, Inl e)
                     | Inr success \<Rightarrow>
                         if success = JBool False \<and>
                            getProp data (js ''authenticated'') = Inr (JBool False)
                         then
                           (case andThen (updateAuthUI (s0\<lparr>isAuthenticated := JBool False\<rparr>)
                                           (JBool False))
                                   (\<lambda>s2. showAlert s2 (JStr SESSION_EXPIRED) (js ''warning'') 5000) of
                              (s3, Some e) \<Rightarrow> (s3, Inl e)
                            | (s3, None) \<Rightarrow> (s3, Inr data))
                         else (s0, Inr data))))"

section \<open>Login and logout of \<^verbatim>\<open>src/static/js/app.js\<close>\<close>

text \<open>
  \<open>field d k\<close> is \<^verbatim>\<open>d.k\<close> at the places where \<^verbatim>\<open>d\<close> has been read from before and is
  therefore neither \<^verbatim>\<open>null\<close> nor \<^verbatim>\<open>undefined\<close>.
\<close>

definition field :: "jsval \<Rightarrow> jsstring \<Rightarrow> jsval" where
  "field d k = (case getProp d k of Inr v \<Rightarrow> v | Inl e \<Rightarrow> JUndefined)"

definition setTimeout :: "state \<Rightarrow> task \<Rightarrow> nat \<Rightarrow> state" where
  "setTimeout s callback delay = s\<lparr>timeouts := timeouts s @ [(delay, callback)]\<rparr>"

definition setInterval :: "state \<Rightarrow> task \<Rightarrow> nat \<Rightarrow> state" where
  "setInterval s callback delay = s\<lparr>intervals := intervals s @ [(delay, callback)]\<rparr>"

text \<open>
  \<^verbatim>\<open>if (typeof refreshDashboard === 'function') refreshDashboard();\<close> The function belongs
  to the page that loads the script; the call is recorded.
\<close>

definition refreshDashboardIfDefined :: "state \<Rightarrow> state" where
  "refreshDashboardIfDefined s =
     (if refreshDashboard_defined s then s\<lparr>trace := trace s @ [RefreshDashboard]\<rparr> else s)"

definition LOGIN_ERROR :: jsstring where
  "LOGIN_ERROR =
     [0xB85C, 0xADF8, 0xC778] @ js '' '' @ [0xC911] @ js '' '' @ [0xC624, 0xB958, 0xAC00] @
     js '' '' @ [0xBC1C, 0xC0DD, 0xD588, 0xC2B5, 0xB2C8, 0xB2E4] @ js ''.''"

definition LOGOUT_ERROR :: jsstring where
  "LOGOUT_ERROR =
     [0xB85C, 0xADF8, 0xC544, 0xC6C3] @ js '' '' @ [0xC911] @ js '' '' @ [0xC624, 0xB958, 0xAC00] @
     js '' '' @ [0xBC1C, 0xC0DD, 0xD588, 0xC2B5, 0xB2C8, 0xB2E4] @ js ''.''"

text \<open>The body of the \<^verbatim>\<open>try\<close> block of \<^verbatim>\<open>login\<close>.\<close>

definition login_try :: "state \<Rightarrow> response option \<Rightarrow> state \<times> exn option" where
  "login_try s outcome =
     (let s1 = fetch (showLoading s True) (js ''/api/auth/login'') postJson
      in case outcome of
           None \<Rightarrow> (s1, Some FetchFailed)
         | Some response \<Rightarrow>
             (case json_body response of
                None \<Rightarrow> (s1, Some JsonSyntaxError)
              | Some data \<Rightarrow>
                  (case getProp data (js ''success'') of
                     Inl e \<Rightarrow> (s1, Some e)
                   | Inr success \<Rightarrow>
                       if truthy success then
                         andThen
                           (andThen (updateAuthUI (s1\<lparr>isAuthenticated := JBool True\<rparr>) (JBool True))
                              (\<lambda>s2. showAlert s2 (field data (js ''message'')) (js ''success'') 5000))
                           (\<lambda>s3. (setTimeout s3 LoginRefresh 1000, None))
                       else showAlert s1 (field data (js ''message'')) (js ''danger'') 5000)))"

text \<open>
  \<^verbatim>\<open>try { ... } catch (error) { showAlert(...) } finally { showLoading(false) }\<close>: an error of
  the handler itself leaves the function after the \<^verbatim>\<open>finally\<close> block.
\<close>

definition login :: "state \<Rightarrow> response option \<Rightarrow> state \<times> exn option" where
  "login s outcome =
     (case (case login_try s outcome of
              (s1, None) \<Rightarrow> (s1, None)
            | (s1, Some error) \<Rightarrow> showAlert s1 (JStr LOGIN_ERROR) (js ''danger'') 5000) of
        (s2, r) \<Rightarrow> (showLoading s2 False, r))"


text \<open>\<open>confirmed\<close> is the user's answer to the \<^verbatim>\<open>confirm\<close> dialog.\<close>

definition logout_try :: "state \<Rightarrow> bool \<Rightarrow> response option \<Rightarrow> state \<times> exn option" where
  "logout_try s confirmed outcome =
     (if \<not> confirmed then (s, None)
      else
        (let s1 = fetch (showLoading s True) (js ''/api/auth/logout'') postJson
         in case outcome of
              None \<Rightarrow> (s1, Some FetchFailed)
            | Some response \<Rightarrow>
                (case json_body response of
                   None \<Rightarrow> (s1, Some JsonSyntaxError)
                 | Some data \<Rightarrow>
                     (case getProp data (js ''success'') of
                        Inl e \<Rightarrow> (s1, Some e)
                      | Inr success \<Rightarrow>
                          if truthy success then
                            andThen
                              (andThen
                                 (updateAuthUI (s1\<lparr>isAuthenticated := JBool False\<rparr>) (JBool False))
                                 (\<lambda>s2. showAlert s2 (field data (js ''message'')) (js ''info'') 5000))
                              (\<lambda>s3. (setTimeout s3 LogoutReload 1000, None))
                          else showAlert s1 (field data (js ''message'')) (js ''danger'') 5000))))"

definition logout :: "state \<Rightarrow> bool \<Rightarrow> response option \<Rightarrow> state \<times> exn option" where
  "logout s confirmed outcome =
     (case (case logout_try s confirmed outcome of
              (s1, None) \<Rightarrow> (s1, None)
            | (s1, Some error) \<Rightarrow> showAlert s1 (JStr LOGOUT_ERROR) (js ''danger'') 5000) of
        (s2, r) \<Rightarrow> (showLoading s2 False, r))"

definition logout_timeout :: "state \<Rightarrow> state" where
  "logout_timeout s = s\<lparr>trace := trace s @ [LocationReload]\<rparr>"

section \<open>Push channel, quote lookup and auto refresh of \<^verbatim>\<open>src/static/js/app.js\<close>\<close>


text \<open>The body of \<^verbatim>\<open>updateRealTimeData\<close> is a comment; the call is recorded.\<close>

definition updateRealTimeData :: "state \<Rightarrow> jsval \<Rightarrow> state" where
  "updateRealTimeData s data = s\<lparr>trace := trace s @ [UpdateRealTimeData data]\<rparr>"

text \<open>
  \<^verbatim>\<open>Object.keys(v).length\<close>: the number of own enumerable string keys, which is the number
  of distinct keys of an object, of elements of an array and of code units of a string, and
  zero for a boolean or a number.
\<close>

fun ObjectKeysLength :: "jsval \<Rightarrow> exn + nat" where
  "ObjectKeysLength JUndefined = Inl TypeError"
| "ObjectKeysLength JNull = Inl TypeError"
| "ObjectKeysLength (JBool b) = Inr 0"
| "ObjectKeysLength (JNum n) = Inr 0"
| "ObjectKeysLength (JStr s) = Inr (length s)"
| "ObjectKeysLength (JArr xs) = Inr (length xs)"
| "ObjectKeysLength (JObj kvs) = Inr (length (remdups (map fst kvs)))"

definition handleRealTimeUpdate :: "state \<Rightarrow> jsval \<Rightarrow> state \<times> exn option" where
  "handleRealTimeUpdate s data =
     (case getProp data (js ''data'') of
        Inl e \<Rightarrow> (s, Some e)
      | Inr d \<Rightarrow>
          if truthy d then
            (case ObjectKeysLength d of
               Inl e \<Rightarrow> (s, Some e)
             | Inr n \<Rightarrow> if n > 0 then (updateRealTimeData s d, None) else (s, None))
          else (s, None))"





text \<open>The body of \<^verbatim>\<open>displayStockInfo\<close> only logs; the call is recorded.\<close>

definition displayStockInfo :: "state \<Rightarrow> jsval \<Rightarrow> state" where
  "displayStockInfo s stockInfo = s\<lparr>trace := trace s @ [DisplayStockInfo stockInfo]\<rparr>"

text \<open>
  \<^verbatim>\<open>searchStockInfo(stockCode)\<close> with a string argument. The request has no second
  argument. Every error is caught and logged.
\<close>

definition searchStockInfo :: "state \<Rightarrow> jsstring \<Rightarrow> response option \<Rightarrow> state" where
  "searchStockInfo s stockCode outcome =
     (let s1 = fetch s (js ''/api/quote/stock/'' @ stockCode) plainGet
      in case outcome of
           None \<Rightarrow> s1
         | Some response \<Rightarrow>
             (case json_body response of
                None \<Rightarrow> s1
              | Some data \<Rightarrow>
                  (case getProp data (js ''success'') of
                     Inl e \<Rightarrow> s1
                   | Inr success \<Rightarrow>
                       if truthy success then displayStockInfo s1 (field data (js ''data''))
                       else s1)))"

text \<open>
  The \<^verbatim>\<open>input\<close> listener that \<^verbatim>\<open>setupEventListeners\<close> puts on the element
  \<^verbatim>\<open>stock-code\<close> when the page has one; \<open>val\<close> is \<^verbatim>\<open>this.value\<close>.
\<close>

definition stockCodeInput_listener :: "state \<Rightarrow> jsstring \<Rightarrow> response option \<Rightarrow> state" where
  "stockCodeInput_listener s val outcome =
     (if length val \<ge> 6 then searchStockInfo s val outcome else s)"

definition AUTO_REFRESH_MS :: nat where
  "AUTO_REFRESH_MS = 60000"

definition setupAutoRefresh :: "state \<Rightarrow> state" where
  "setupAutoRefresh s =
     (setInterval s AutoRefresh AUTO_REFRESH_MS)\<lparr>refreshInterval := Some (length (intervals s))\<rparr>"

text \<open>The callback of the interval timer.\<close>

definition autoRefresh_tick :: "state \<Rightarrow> state" where
  "autoRefresh_tick s =
     (if truthy (isAuthenticated s) \<and> refreshDashboard_defined s
      then s\<lparr>trace := trace s @ [RefreshDashboard]\<rparr>
      else s)"

section \<open>The functions of \<^verbatim>\<open>src/unnamed/part_000\<close>\<close>

definition showLoading_part000 :: "state \<Rightarrow> bool \<Rightarrow> state" where
  "showLoading_part000 s show =
     (case loading_spinner s of
        None \<Rightarrow> s
      | Some d_none \<Rightarrow> s\<lparr>loading_spinner := Some (\<not> show)\<rparr>)"

definition showAlert_part000 :: "state \<Rightarrow> jsval \<Rightarrow> jsstring \<Rightarrow> nat \<Rightarrow> state \<times> exn option" where
  "showAlert_part000 s message type duration =
     (case message of
        JStr m \<Rightarrow>
          (case alert_container s of
             None \<Rightarrow> (s, Some TypeError)
           | Some children \<Rightarrow>
               (let alertDiv =
                      \<lparr>alert_id = next_node s,
                       alert_className =
                         js ''alert alert-'' @ type @ js '' alert-dismissible fade show'',
                       alert_innerHTML = alertHTML (formatMessage m)\<rparr>
                in (s\<lparr>alert_container := Some (children @ [alertDiv]),
                      next_node := Suc (next_node s),
                      timeouts := timeouts s @ [(duration, RemoveAlert (alert_id alertDiv))]\<rparr>,
                    None)))
      | _ \<Rightarrow> (s, Some TypeError))"

definition updateAuthUI_part000 :: "state \<Rightarrow> jsval \<Rightarrow> state \<times> exn option" where
  "updateAuthUI_part000 s authenticated =
     (case auth_btn s of
        None \<Rightarrow> (s, Some TypeError)
      | Some authBtn \<Rightarrow>
          (let s1 = s\<lparr>auth_btn := Some (authBtn\<lparr>
                         btn_innerHTML := (if truthy authenticated then LOGOUT_BUTTON else LOGIN_BUTTON),
                         btn_onclick := Some (if truthy authenticated then Logout else Login)\<rparr>)\<rparr>
           in case connection_status s1 of
                None \<Rightarrow> (s1, Some TypeError)
              | Some old \<Rightarrow>
                  (s1\<lparr>connection_status :=
                        Some (if truthy authenticated then STATUS_CONNECTED
                              else STATUS_DISCONNECTED)\<rparr>, None)))"

definition AUTH_CHECK_FAILED :: jsstring where
  "AUTH_CHECK_FAILED =
     [0xC778, 0xC99D] @ js '' '' @ [0xC0C1, 0xD0DC] @ js '' '' @ [0xD655, 0xC778, 0xC5D0] @
     js '' '' @ [0xC2E4, 0xD328, 0xD588, 0xC2B5, 0xB2C8, 0xB2E4] @ js ''.''"

definition checkAuthStatus_try_part000 :: "state \<Rightarrow> response option \<Rightarrow> state \<times> exn option" where
  "checkAuthStatus_try_part000 s outcome =
     (let s1 = fetch s (js ''/api/auth/status'') plainGet
      in case outcome of
           None \<Rightarrow> (s1, Some FetchFailed)
         | Some response \<Rightarrow>
             (case json_body response of
                None \<Rightarrow> (s1, Some JsonSyntaxError)
              | Some data \<Rightarrow>
                  (case getProp data (js ''authenticated'') of
                     Inl e \<Rightarrow> (s1, Some e)
                   | Inr authenticated \<Rightarrow>
                       andThen (updateAuthUI_part000 (s1\<lparr>isAuthenticated := authenticated\<rparr>)
                                  authenticated)
                         (\<lambda>s2. (if truthy authenticated then refreshDashboardIfDefined s2 else s2,
                                None)))))"

definition checkAuthStatus_part000 :: "state \<Rightarrow> response option \<Rightarrow> state \<times> exn option" where
  "checkAuthStatus_part000 s outcome =
     (case checkAuthStatus_try_part000 s outcome of
        (s1, None) \<Rightarrow> (s1, None)
      | (s1, Some error) \<Rightarrow> showAlert_part000 s1 (JStr AUTH_CHECK_FAILED) (js ''danger'') 5000)"

definition LOGIN_PROGRESS_TITLE :: jsstring where
  "LOGIN_PROGRESS_TITLE =
     [0xD83D, 0xDD10] @ js '' '' @ [0xB85C, 0xADF8, 0xC778] @ js '' '' @ [0xC911] @ js ''...''"

definition TOKEN_STEP :: jsstring where
  "TOKEN_STEP = [0xD1A0, 0xD070] @ js '' '' @ [0xBC1C, 0xAE09] @ js '' '' @ [0xC911] @ js ''...''"

text \<open>The dialog as the inserted markup describes it.\<close>

definition insertedModal :: modal where
  "insertedModal =
     \<lparr>progressMessage_text = LOGIN_PROGRESS_TITLE,
      progressMessage_className = [],
      progressBar_className =
        js ''progress-bar progress-bar-striped progress-bar-animated bg-primary'',
      progressBar_width = js ''0%'',
      progressDetail_text = TOKEN_STEP,
      modal_instance = False,
      modal_shown = False,
      modal_remove_when_hidden = False\<rparr>"

text \<open>
  \<^verbatim>\<open>startLoginProgressAnimation\<close> starts an interval timer of three seconds that walks the
  progress bar through seven steps; only its registration is modelled.
\<close>

definition startLoginProgressAnimation :: "state \<Rightarrow> state" where
  "startLoginProgressAnimation s = setInterval s (LoginProgressAnimation 0) 3000"

text \<open>
  \<^verbatim>\<open>showLoginProgressModal\<close>: an existing dialog is removed and the markup inserted; then
  \<^verbatim>\<open>new bootstrap.Modal(...)\<close> raises a ReferenceError when Bootstrap is not loaded.
\<close>

definition showLoginProgressModal :: "state \<Rightarrow> state \<times> exn option" where
  "showLoginProgressModal s =
     (let s1 = s\<lparr>loginProgressModal := Some insertedModal\<rparr>
      in if \<not> bootstrap_loaded s1 then (s1, Some ReferenceError)
         else (startLoginProgressAnimation
                 (s1\<lparr>loginProgressModal :=
                        Some (insertedModal\<lparr>modal_instance := True, modal_shown := True\<rparr>)\<rparr>),
               None))"

definition updateLoginProgress :: "state \<Rightarrow> jsstring \<Rightarrow> jsstring \<Rightarrow> state" where
  "updateLoginProgress s message type =
     (case loginProgressModal s of
        None \<Rightarrow> s
      | Some m \<Rightarrow>
          (let m1 = m\<lparr>progressMessage_text := message\<rparr>
           in s\<lparr>loginProgressModal := Some
                  (if type = js ''success'' then
                     m1\<lparr>progressMessage_className := js ''text-success'',
                        progressBar_className := js ''progress-bar bg-success'',
                        progressBar_width := js ''100%''\<rparr>
                   else if type = js ''danger'' then
                     m1\<lparr>progressMessage_className := js ''text-danger'',
                        progressBar_className := js ''progress-bar bg-danger''\<rparr>
                   else m1)\<rparr>))"

definition hideLoginProgressModal :: "state \<Rightarrow> state \<times> exn option" where
  "hideLoginProgressModal s =
     (case loginProgressModal s of
        None \<Rightarrow> (s, None)
      | Some m \<Rightarrow>
          if \<not> bootstrap_loaded s then (s, Some ReferenceError)
          else (s\<lparr>loginProgressModal := Some
                     (m\<lparr>modal_shown := (if modal_instance m then False else modal_shown m),
                        modal_remove_when_hidden := True\<rparr>)\<rparr>, None))"






definition DASHBOARD_LOADING :: jsstring where
  \<open>DASHBOARD_LOADING =
     js ''<div class="text-muted">'' @ [0xB370, 0xC774, 0xD130, 0xB97C] @ js '' '' @
     [0xBD88, 0xB7EC, 0xC624, 0xB294] @ js '' '' @ [0xC911] @ js ''...</div>''\<close>

text \<open>\<^verbatim>\<open>clearDashboard\<close>: each of the five panels that the page has gets the loading text.\<close>

definition clearDashboard :: "state \<Rightarrow> state" where
  "clearDashboard s =
     s\<lparr>connection_status := map_option (\<lambda>old. DASHBOARD_LOADING) (connection_status s),
       account_info := map_option (\<lambda>old. DASHBOARD_LOADING) (account_info s),
       portfolio_summary := map_option (\<lambda>old. DASHBOARD_LOADING) (portfolio_summary s),
       recent_orders := map_option (\<lambda>old. DASHBOARD_LOADING) (recent_orders s),
       trading_diary := map_option (\<lambda>old. DASHBOARD_LOADING) (trading_diary s)\<rparr>"

text \<open>
  In \<^verbatim>\<open>part_000\<close> the test \<^verbatim>\<open>typeof clearDashboard === 'function'\<close> is always true, the
  function being declared in the same file.
\<close>

definition logout_try_part000 :: "state \<Rightarrow> bool \<Rightarrow> response option \<Rightarrow> state \<times> exn option" where
  "logout_try_part000 s confirmed outcome =
     (if \<not> confirmed then (s, None)
      else
        (let s1 = fetch (showLoading_part000 s True) (js ''/api/auth/logout'') postJson
         in case outcome of
              None \<Rightarrow> (s1, Some FetchFailed)
            | Some response \<Rightarrow>
                (case json_body response of
                   None \<Rightarrow> (s1, Some JsonSyntaxError)
                 | Some data \<Rightarrow>
                     (case getProp data (js ''success'') of
                        Inl e \<Rightarrow> (s1, Some e)
                      | Inr success \<Rightarrow>
                          if truthy success then
                            andThen
                              (andThen
                                 (updateAuthUI_part000 (s1\<lparr>isAuthenticated := JBool False\<rparr>)
                                    (JBool False))
                                 (\<lambda>s2. showAlert_part000 (clearDashboard s2)
                                          (field data (js ''message'')) (js ''info'') 5000))
                              (\<lambda>s3. (setTimeout s3 LogoutRecheck 500, None))
                          else showAlert_part000 s1 (field data (js ''message''))
                                 (js ''danger'') 5000))))"

definition logout_part000 :: "state \<Rightarrow> bool \<Rightarrow> response option \<Rightarrow> state \<times> exn option" where
  "logout_part000 s confirmed outcome =
     (case (case logout_try_part000 s confirmed outcome of
              (s1, None) \<Rightarrow> (s1, None)
            | (s1, Some error) \<Rightarrow> showAlert_part000 s1 (JStr LOGOUT_ERROR) (js ''danger'') 5000) of
        (s2, r) \<Rightarrow> (showLoading_part000 s2 False, r))"

text \<open>
  The callback of the timer that \<^verbatim>\<open>logout\<close> sets: it asks the server for the
  authentication state again and swallows every error.
\<close>

definition logout_timeout_part000 :: "state \<Rightarrow> response option \<Rightarrow> state" where
  "logout_timeout_part000 s outcome = fst (checkAuthStatus_part000 s outcome)"

definition updateRealTimeData_part000 :: "state \<Rightarrow> jsval \<Rightarrow> state" where
  "updateRealTimeData_part000 s data = s\<lparr>trace := trace s @ [UpdateRealTimeData data]\<rparr>"

definition handleRealTimeUpdate_part000 :: "state \<Rightarrow> jsval \<Rightarrow> state \<times> exn option" where
  "handleRealTimeUpdate_part000 s data =
     (case getProp data (js ''data'') of
        Inl e \<Rightarrow> (s, Some e)
      | Inr d \<Rightarrow>
          if truthy d then
            (case ObjectKeysLength d of
               Inl e \<Rightarrow> (s, Some e)
             | Inr n \<Rightarrow> if n > 0 then (updateRealTimeData_part000 s d, None) else (s, None))
          else (s, None))"

definition apiRequest_part000 ::
  "state \<Rightarrow> jsstring \<Rightarrow> request_options \<Rightarrow> response option \<Rightarrow> state \<times> (exn + jsval)" where
  "apiRequest_part000 s url options outcome =
     (let s0 = fetch s url (apiRequestInit options)
      in case outcome of
           None \<Rightarrow> (s0, Inl FetchFailed)
         | Some response \<Rightarrow>
             if \<not> ok response then (s0, Inl (HttpError (status response)))
             else
               (case json_body response of
                  None \<Rightarrow> (s0, Inl JsonSyntaxError)
                | Some data \<Rightarrow>
                    (case getProp data (js ''success'') of
                       Inl e \<Rightarrow> (s0, Inl e)
                     | Inr success \<Rightarrow>
                         if success = JBool False \<and>
                            getProp data (js ''authenticated'') = Inr (JBool False)
                         then
                           (case andThen (updateAuthUI_part000 (s0\<lparr>isAuthenticated := JBool False\<rparr>)
                                           (JBool False))
                                   (\<lambda>s2. showAlert_part000 s2 (JStr SESSION_EXPIRED)
                                            (js ''warning'') 5000) of
                              (s3, Some e) \<Rightarrow> (s3, Inl e)
                            | (s3, None) \<Rightarrow> (s3, Inr data))
                         else (s0, Inr data))))"

section \<open>The server side\<close>

text \<open>
  The Flask application behind the endpoints (\<^verbatim>\<open>src/web/app.py\<close> and \<^verbatim>\<open>src/api/\<close> in the
  project layout of the README) is not among the sources. What the claims say about it is
  stated against the following definitions, which follow the words of the specification.
\<close>

datatype server_type = mock | real

text \<open>
  Modelled from the spec: the Session of section 3, \<^verbatim>\<open>{authenticated, access_token,
  token_expiry, server_type}\<close>, of which the process has one, created on successful login
  and cleared on logout. \<open>None\<close> is the cleared state.
\<close>

record session =
  session_authenticated :: bool
  access_token :: string
  token_expiry :: nat
  session_server_type :: server_type

text \<open>Modelled from the spec: the result shape \<^verbatim>\<open>{success, message}\<close> of login and logout.\<close>

record auth_result =
  result_success :: bool
  result_message :: jsstring

text \<open>
  Modelled from the spec: \<^verbatim>\<open>logout() -> {success, message}\<close> of section 4.1, which "clears
  Session state unconditionally (idempotent - calling it twice is not an error)".
\<close>

definition session_logout :: "session option \<Rightarrow> session option \<times> auth_result" where
  "session_logout st = (None, \<lparr>result_success = True, result_message = js ''logged out''\<rparr>)"

text \<open>
  Modelled from the spec: \<^verbatim>\<open>status() -> {authenticated, server_info}\<close> of section 4.1, a
  "pure read of current Session state"; only the \<^verbatim>\<open>authenticated\<close> part is modelled.
\<close>

definition session_status :: "session option \<Rightarrow> bool" where
  "session_status st = (case st of None \<Rightarrow> False | Some ss \<Rightarrow> session_authenticated ss)"

text \<open>The JSON bodies that carry these results to the browser.\<close>

definition authResultBody :: "auth_result \<Rightarrow> jsval" where
  "authResultBody r =
     JObj [(js ''success'', JBool (result_success r)), (js ''message'', JStr (result_message r))]"

definition statusBody :: "bool \<Rightarrow> jsval" where
  "statusBody a = JObj [(js ''authenticated'', JBool a)]"

text \<open>
  Modelled from the spec: the OrderRequest of section 3, \<^verbatim>\<open>{symbol_code, side, quantity,
  price, order_type}\<close>, with cash as the only order type.
\<close>

datatype side = buy | sell

datatype order_type = cash

record OrderRequest =
  symbol_code :: string
  order_side :: side
  quantity :: int
  price :: rat
  order_kind :: order_type

text \<open>
  Modelled from the spec: the invariants of an OrderRequest, "symbol\_code is a fixed-length
  numeric string; quantity and price must be positive", the length being six digits
  (section 8).
\<close>

definition valid_symbol_code :: "string \<Rightarrow> bool" where
  "valid_symbol_code c \<longleftrightarrow> length c = 6 \<and> list_all (\<lambda>ch. ch \<in> set ''0123456789'') c"

definition valid_order :: "OrderRequest \<Rightarrow> bool" where
  "valid_order req \<longleftrightarrow> valid_symbol_code (symbol_code req) \<and> 0 < quantity req \<and> 0 < price req"

datatype order_field = SymbolCodeField | QuantityField | PriceField

datatype 'r order_response = ValidationError order_field | Submitted 'r

text \<open>
  Modelled from the spec: order placement (sections 4.5, 7 and 8). The request is checked
  against the invariants before the Broker API Client is called; a violation is "rejected
  before any network call" and "surfaced with a specific field-level message"; a valid
  request is submitted once. \<open>broker\<close> is the brokerage's answer to a submitted order and
  \<open>sent\<close> the list of the orders sent over the network so far.
\<close>

definition placeOrder ::
  "(OrderRequest \<Rightarrow> 'r) \<Rightarrow> OrderRequest list \<Rightarrow> OrderRequest
     \<Rightarrow> 'r order_response \<times> OrderRequest list" where
  "placeOrder broker sent req =
     (if \<not> valid_symbol_code (symbol_code req) then (ValidationError SymbolCodeField, sent)
      else if quantity req \<le> 0 then (ValidationError QuantityField, sent)
      else if price req \<le> 0 then (ValidationError PriceField, sent)
      else (Submitted (broker req), sent @ [req]))"

section \<open>Properties referred to by the claims\<close>

text \<open>The two states of the authentication controls that \<^verbatim>\<open>updateAuthUI\<close> establishes.\<close>

definition showsLoginUI :: "state \<Rightarrow> bool" where
  "showsLoginUI s \<longleftrightarrow>
     (case auth_btn s of
        None \<Rightarrow> False
      | Some b \<Rightarrow> btn_innerHTML b = LOGIN_BUTTON \<and> btn_onclick b = Some Login) \<and>
     connection_status s = Some STATUS_DISCONNECTED"

definition showsLogoutUI :: "state \<Rightarrow> bool" where
  "showsLogoutUI s \<longleftrightarrow>
     (case auth_btn s of
        None \<Rightarrow> False
      | Some b \<Rightarrow> btn_innerHTML b = LOGOUT_BUTTON \<and> btn_onclick b = Some Logout) \<and>
     connection_status s = Some STATUS_CONNECTED"

text \<open>The page has the elements that the authentication controls and the alerts need.\<close>

definition hasAuthControls :: "state \<Rightarrow> bool" where
  "hasAuthControls s \<longleftrightarrow> auth_btn s \<noteq> None \<and> connection_status s \<noteq> None"

definition hasAlertContainer :: "state \<Rightarrow> bool" where
  "hasAlertContainer s \<longleftrightarrow> alert_container s \<noteq> None"

text \<open>The alert that \<^verbatim>\<open>showAlert(message, type)\<close> puts last into the container.\<close>

definition displaysAlert :: "state \<Rightarrow> jsstring \<Rightarrow> jsstring \<Rightarrow> bool" where
  "displaysAlert s message type \<longleftrightarrow>
     (case alert_container s of
        None \<Rightarrow> False
      | Some children \<Rightarrow>
          children \<noteq> [] \<and>
          alert_className (last children) =
            js ''alert alert-'' @ type @ js '' alert-dismissible fade show'' \<and>
          alert_innerHTML (last children) = alertHTML (formatMessage message))"

text \<open>A symbol code as the specification describes it: six decimal digits.\<close>

definition isSymbolCode :: "jsstring \<Rightarrow> bool" where
  "isSymbolCode v \<longleftrightarrow> length v = 6 \<and> list_all isDecimalDigit v"

text \<open>
  The values that ToString converts without raising: every value that is not an array or an
  object, an object without an own property \<^verbatim>\<open>toString\<close>, and an array each of whose
  elements is such a value.
\<close>

fun stringConvertible :: "jsval \<Rightarrow> bool"
  and stringConvertibleElements :: "jsval list \<Rightarrow> bool" where
  "stringConvertible (JArr xs) = stringConvertibleElements xs"
| "stringConvertible (JObj kvs) = (js ''toString'' \<notin> fst ` set kvs)"
| "stringConvertible JUndefined = True"
| "stringConvertible JNull = True"
| "stringConvertible (JBool b) = True"
| "stringConvertible (JNum n) = True"
| "stringConvertible (JStr s) = True"
| "stringConvertibleElements [] = True"
| "stringConvertibleElements (x # xs) = (stringConvertible x \<and> stringConvertibleElements xs)"

section \<open>Sample inputs\<close>

text \<open>
  A runtime for evaluating the model on concrete inputs. Its answers are fixed texts; the
  inputs it is used on do not reach a number or a date that would need the real ones.
\<close>

definition sample_runtime :: runtime where
  "sample_runtime =
     \<lparr>NumberToString = (\<lambda>n. js ''1''),
      StringToNumber = (\<lambda>s. Finite 1),
      toLocaleString_koKR = (\<lambda>n. js ''1''),
      toFixed2 = (\<lambda>n. js ''1.00''),
      toLocaleDateString_koKR = (\<lambda>v. Inr (js ''2024. 1. 1.'')),
      toLocaleTimeString_koKR = (\<lambda>v. Inr (js ''12:00:00''))\<rparr>"

text \<open>
  The state after the script is loaded on a page that has every element the script looks
  up: the global variables as their initialisers set them, the elements empty.
\<close>

definition loaded_page :: state where
  "loaded_page =
     \<lparr>isAuthenticated = JBool False,
      socket = None,
      refreshInterval = None,
      refreshDashboard_defined = True,
      io_loaded = True,
      bootstrap_loaded = True,
      auth_btn = Some \<lparr>btn_innerHTML = [], btn_onclick = None\<rparr>,
      connection_status = Some [],
      alert_container = Some [],
      loading_spinner = Some True,
      loginProgressModal = None,
      account_info = Some [],
      portfolio_summary = Some [],
      recent_orders = Some [],
      trading_diary = Some [],
      next_node = 0,
      timeouts = [],
      intervals = [],
      trace = []\<rparr>"

definition no_options :: request_options where
  "no_options = \<lparr>opt_method = None, opt_headers = None, opt_body = None\<rparr>"

definition jsonResponse :: "nat \<Rightarrow> jsval \<Rightarrow> response" where
  "jsonResponse code body =
     \<lparr>ok = (200 \<le> code \<and> code \<le> 299), status = code, json_body = Some body\<rparr>"

definition authenticated_page :: state where
  "authenticated_page = loaded_page\<lparr>isAuthenticated := JBool True\<rparr>"

text \<open>Bodies of responses and payloads of events.\<close>

definition unauthenticatedBody :: jsval where
  "unauthenticatedBody =
     JObj [(js ''success'', JBool False), (js ''authenticated'', JBool False),
           (js ''message'', JStr (js ''login required''))]"

definition confirmedBody :: jsval where
  "confirmedBody = JObj [(js ''success'', JBool True), (js ''data'', JObj [])]"


text \<open>The order of the example in section 8 of the specification.\<close>

definition zero_quantity_order :: OrderRequest where
  "zero_quantity_order =
     \<lparr>symbol_code = ''005930'', order_side = buy, quantity = 0, price = 70000,
      order_kind = cash\<rparr>"

text \<open>A session on the server, and the bodies the server sends for it.\<close>

definition sample_session :: session where
  "sample_session =
     \<lparr>session_authenticated = True, access_token = ''token'', token_expiry = 1700000000,
      session_server_type = mock\<rparr>"

definition loggedOutBody :: jsval where
  "loggedOutBody = authResultBody (snd (session_logout (Some sample_session)))"





section \<open>Facts about the shared page functions\<close>

lemma updateAuthUI_part000_eq: "updateAuthUI_part000 = updateAuthUI"
  by (intro ext) (simp add: updateAuthUI_part000_def updateAuthUI_def)

lemma showAlert_part000_eq: "showAlert_part000 = showAlert"
  by (intro ext) (simp add: showAlert_part000_def showAlert_def)

lemma showLoading_part000_eq: "showLoading_part000 = showLoading"
  by (intro ext) (simp add: showLoading_part000_def showLoading_def)

lemma updateAuthUI_isAuthenticated [simp]:
  "isAuthenticated (fst (updateAuthUI s a)) = isAuthenticated s"
  by (simp add: updateAuthUI_def Let_def split: option.splits)

lemma showAlert_isAuthenticated [simp]:
  "isAuthenticated (fst (showAlert s m ty d)) = isAuthenticated s"
  by (simp add: showAlert_def Let_def split: option.splits jsval.splits)

lemma showLoading_isAuthenticated [simp]:
  "isAuthenticated (showLoading s b) = isAuthenticated s"
  by (simp add: showLoading_def split: option.splits)

lemma fetch_fields [simp]:
  "isAuthenticated (fetch s url init) = isAuthenticated s"
  "auth_btn (fetch s url init) = auth_btn s"
  "connection_status (fetch s url init) = connection_status s"
  "alert_container (fetch s url init) = alert_container s"
  "trace (fetch s url init) = trace s @ [Fetch url init]"
  by (simp_all add: fetch_def)

lemma updateAuthUI_ok:
  assumes "hasAuthControls s"
  shows "snd (updateAuthUI s a) = None"
    and "\<not> truthy a \<Longrightarrow> showsLoginUI (fst (updateAuthUI s a))"
    and "truthy a \<Longrightarrow> showsLogoutUI (fst (updateAuthUI s a))"
    and "alert_container (fst (updateAuthUI s a)) = alert_container s"
  using assms
  by (auto simp: updateAuthUI_def hasAuthControls_def showsLoginUI_def showsLogoutUI_def Let_def)

lemma showAlert_ok:
  assumes "hasAlertContainer s"
  shows "snd (showAlert s (JStr m) ty d) = None"
    and "displaysAlert (fst (showAlert s (JStr m) ty d)) m ty"
    and "auth_btn (fst (showAlert s (JStr m) ty d)) = auth_btn s"
    and "connection_status (fst (showAlert s (JStr m) ty d)) = connection_status s"
    and "timeouts (fst (showAlert s (JStr m) ty d)) = timeouts s @ [(d, RemoveAlert (next_node s))]"
  using assms
  by (auto simp: showAlert_def hasAlertContainer_def displaysAlert_def Let_def)

lemma showAlert_auth_ui [simp]:
  "auth_btn (fst (showAlert s m ty d)) = auth_btn s"
  "connection_status (fst (showAlert s m ty d)) = connection_status s"
  by (simp_all add: showAlert_def Let_def split: option.splits jsval.splits)

lemma andThen_preserves:
  "(\<And>t. g (fst (f t)) = g t) \<Longrightarrow> g (fst (andThen r f)) = g (fst r)"
  by (cases r) (simp add: andThen_def split: option.splits)

lemma getProp_not_null: "d \<noteq> JNull \<Longrightarrow> d \<noteq> JUndefined \<Longrightarrow> \<exists>v. getProp d k = Inr v"
  by (cases d) simp_all


section \<open>Facts about login and logout\<close>

lemma showLoading_fields [simp]:
  "auth_btn (showLoading s b) = auth_btn s"
  "connection_status (showLoading s b) = connection_status s"
  "alert_container (showLoading s b) = alert_container s"
  "timeouts (showLoading s b) = timeouts s"
  "bootstrap_loaded (showLoading s b) = bootstrap_loaded s"
  by (simp_all add: showLoading_def split: option.splits)

lemma setTimeout_fields [simp]:
  "isAuthenticated (setTimeout s c d) = isAuthenticated s"
  "auth_btn (setTimeout s c d) = auth_btn s"
  "connection_status (setTimeout s c d) = connection_status s"
  "alert_container (setTimeout s c d) = alert_container s"
  "timeouts (setTimeout s c d) = timeouts s @ [(d, c)]"
  by (simp_all add: setTimeout_def)

lemma authResultBody_props [simp]:
  "getProp (authResultBody res) (js ''success'') = Inr (JBool (result_success res))"
  "getProp (authResultBody res) (js ''message'') = Inr (JStr (result_message res))"
  by (simp_all add: authResultBody_def js_def)


lemma logout_preserves:
  assumes "\<And>t m ty d. g (fst (showAlert t m ty d)) = g t"
    and "\<And>t b. g (showLoading t b) = g t"
  shows "g (fst (logout s c outcome)) = g (fst (logout_try s c outcome))"
proof (cases "logout_try s c outcome")
  case (Pair s1 e)
  have "g (fst (showAlert s1 (JStr LOGOUT_ERROR) (js ''danger'') 5000)) = g s1"
    by (rule assms(1))
  then show ?thesis
    by (auto simp: logout_def Pair assms(2) split: option.splits prod.splits)
qed






lemma hideLoginProgressModal_fields [simp]:
  "isAuthenticated (fst (hideLoginProgressModal s)) = isAuthenticated s"
  "auth_btn (fst (hideLoginProgressModal s)) = auth_btn s"
  "connection_status (fst (hideLoginProgressModal s)) = connection_status s"
  "alert_container (fst (hideLoginProgressModal s)) = alert_container s"
  "timeouts (fst (hideLoginProgressModal s)) = timeouts s"
  "trace (fst (hideLoginProgressModal s)) = trace s"
  "refreshDashboard_defined (fst (hideLoginProgressModal s)) = refreshDashboard_defined s"
  by (simp_all add: hideLoginProgressModal_def split: option.splits)


lemma showLoginProgressModal_fields [simp]:
  "isAuthenticated (fst (showLoginProgressModal s)) = isAuthenticated s"
  "auth_btn (fst (showLoginProgressModal s)) = auth_btn s"
  "connection_status (fst (showLoginProgressModal s)) = connection_status s"
  "alert_container (fst (showLoginProgressModal s)) = alert_container s"
  "timeouts (fst (showLoginProgressModal s)) = timeouts s"
  "bootstrap_loaded (fst (showLoginProgressModal s)) = bootstrap_loaded s"
  by (simp_all add: showLoginProgressModal_def Let_def startLoginProgressAnimation_def
      setInterval_def)


lemma updateLoginProgress_fields [simp]:
  "isAuthenticated (updateLoginProgress s m ty) = isAuthenticated s"
  "auth_btn (updateLoginProgress s m ty) = auth_btn s"
  "connection_status (updateLoginProgress s m ty) = connection_status s"
  "alert_container (updateLoginProgress s m ty) = alert_container s"
  "timeouts (updateLoginProgress s m ty) = timeouts s"
  by (simp_all add: updateLoginProgress_def Let_def split: option.splits)

lemma fetch_more_fields [simp]:
  "timeouts (fetch s url init) = timeouts s"
  "bootstrap_loaded (fetch s url init) = bootstrap_loaded s"
  by (simp_all add: fetch_def)

lemma showAlert_more_fields [simp]:
  "bootstrap_loaded (fst (showAlert s m ty d)) = bootstrap_loaded s"
  "trace (fst (showAlert s m ty d)) = trace s"
  "refreshDashboard_defined (fst (showAlert s m ty d)) = refreshDashboard_defined s"
  by (simp_all add: showAlert_def Let_def split: option.splits jsval.splits)







lemma clearDashboard_isAuthenticated [simp]:
  "isAuthenticated (clearDashboard s) = isAuthenticated s"
  by (simp add: clearDashboard_def)

lemma logout_part000_preserves:
  assumes "\<And>t m ty d. g (fst (showAlert t m ty d)) = g t"
    and "\<And>t b. g (showLoading t b) = g t"
  shows "g (fst (logout_part000 s c outcome)) = g (fst (logout_try_part000 s c outcome))"
proof (cases "logout_try_part000 s c outcome")
  case (Pair s1 e)
  have "g (fst (showAlert s1 (JStr LOGOUT_ERROR) (js ''danger'') 5000)) = g s1"
    by (rule assms(1))
  then show ?thesis
    by (auto simp: logout_part000_def Pair assms(2) showLoading_part000_eq showAlert_part000_eq
        split: option.splits prod.splits)
qed

lemma logout_success:
  assumes "json_body r = Some d" "getProp d (js ''success'') = Inr (JBool True)"
  shows "isAuthenticated (fst (logout s True (Some r))) = JBool False"
    and "isAuthenticated (fst (logout_part000 s True (Some r))) = JBool False"
proof -
  have "isAuthenticated (fst (logout_try s True (Some r))) = JBool False"
    using assms by (simp add: logout_try_def Let_def andThen_preserves)
  then show "isAuthenticated (fst (logout s True (Some r))) = JBool False"
    by (simp add: logout_preserves)
  have "isAuthenticated (fst (logout_try_part000 s True (Some r))) = JBool False"
    using assms
    by (simp add: logout_try_part000_def Let_def andThen_preserves showLoading_part000_eq
        showAlert_part000_eq updateAuthUI_part000_eq)
  then show "isAuthenticated (fst (logout_part000 s True (Some r))) = JBool False"
    by (simp add: logout_part000_preserves)
qed

lemma refreshDashboardIfDefined_isAuthenticated [simp]:
  "isAuthenticated (refreshDashboardIfDefined s) = isAuthenticated s"
  by (simp add: refreshDashboardIfDefined_def)

lemma recheck_after_logout:
  assumes "json_body r = Some (statusBody False)"
  shows "isAuthenticated (logout_timeout_part000 t (Some r)) = JBool False"
proof -
  have g: "getProp (statusBody False) (js ''authenticated'') = Inr (JBool False)"
    by (simp add: statusBody_def)
  have "isAuthenticated (fst (checkAuthStatus_try_part000 t (Some r))) = JBool False"
    using assms g
    by (simp add: checkAuthStatus_try_part000_def Let_def andThen_preserves
        updateAuthUI_part000_eq)
  then show ?thesis
    unfolding logout_timeout_part000_def checkAuthStatus_part000_def
    by (cases "checkAuthStatus_try_part000 t (Some r)")
       (auto simp: showAlert_part000_eq split: option.splits)
qed

section \<open>Forced logout in \<^verbatim>\<open>apiRequest\<close>\<close>

text \<open>
  Claim C1, as amended. \<^verbatim>\<open>apiRequest\<close> reads the body only of a response whose status is
  in the 200 range. For such a response whose body has \<^verbatim>\<open>success\<close> and
  \<^verbatim>\<open>authenticated\<close> both \<^verbatim>\<open>false\<close> it sets \<^verbatim>\<open>isAuthenticated\<close> to \<^verbatim>\<open>false\<close>, shows the
  login controls on a page that has them, and, when the page also has the alert container,
  shows the session alert and returns the body. For such a response with any other body
  except \<^verbatim>\<open>null\<close> it returns the body, and the authentication flag and controls are as
  before. For a response with another status it raises the HTTP error, and the state is as
  before but for the request sent.
\<close>

theorem apiRequest_forced_logout:
  "(ok r \<and> json_body r = Some d \<and>
    getProp d (js ''success'') = Inr (JBool False) \<and>
    getProp d (js ''authenticated'') = Inr (JBool False) \<longrightarrow>
      isAuthenticated (fst (apiRequest s url options (Some r))) = JBool False \<and>
      (hasAuthControls s \<longrightarrow> showsLoginUI (fst (apiRequest s url options (Some r)))) \<and>
      (hasAuthControls s \<and> hasAlertContainer s \<longrightarrow>
         snd (apiRequest s url options (Some r)) = Inr d \<and>
         displaysAlert (fst (apiRequest s url options (Some r))) SESSION_EXPIRED (js ''warning''))) \<and>
   (ok r \<and> json_body r = Some d \<and> d \<noteq> JNull \<and> d \<noteq> JUndefined \<and>
    \<not> (getProp d (js ''success'') = Inr (JBool False) \<and>
       getProp d (js ''authenticated'') = Inr (JBool False)) \<longrightarrow>
      apiRequest s url options (Some r) = (fetch s url (apiRequestInit options), Inr d) \<and>
      isAuthenticated (fst (apiRequest s url options (Some r))) = isAuthenticated s \<and>
      auth_btn (fst (apiRequest s url options (Some r))) = auth_btn s \<and>
      connection_status (fst (apiRequest s url options (Some r))) = connection_status s) \<and>
   (\<not> ok r \<longrightarrow>
      apiRequest s url options (Some r) =
        (fetch s url (apiRequestInit options), Inl (HttpError (status r))))"
proof (intro conjI impI)
  assume a: "ok r \<and> json_body r = Some d \<and>
    getProp d (js ''success'') = Inr (JBool False) \<and>
    getProp d (js ''authenticated'') = Inr (JBool False)"
  let ?s0 = "(fetch s url (apiRequestInit options))\<lparr>isAuthenticated := JBool False\<rparr>"
  let ?u = "updateAuthUI ?s0 (JBool False)"
  let ?a = "andThen ?u (\<lambda>s2. showAlert s2 (JStr SESSION_EXPIRED) (js ''warning'') 5000)"
  let ?R = "apiRequest s url options (Some r)"
  have R: "?R = (case ?a of (s3, Some e) \<Rightarrow> (s3, Inl e) | (s3, None) \<Rightarrow> (s3, Inr d))"
    using a by (simp add: apiRequest_def Let_def)
  have fstR: "fst ?R = fst ?a"
    unfolding R by (simp split: prod.splits option.splits)
  show "isAuthenticated (fst ?R) = JBool False"
    unfolding fstR by (simp add: andThen_preserves)
  {
    assume h: "hasAuthControls s"
    then have h0: "hasAuthControls ?s0" by (simp add: hasAuthControls_def)
    have "showsLoginUI (fst ?a) = showsLoginUI (fst ?u)"
      by (rule andThen_preserves) (simp add: showsLoginUI_def)
    then show "showsLoginUI (fst ?R)"
      unfolding fstR using updateAuthUI_ok(2)[OF h0, of "JBool False"] by simp
  }
  {
    assume h: "hasAuthControls s \<and> hasAlertContainer s"
    then have h0: "hasAuthControls ?s0" by (simp add: hasAuthControls_def)
    have hc: "hasAlertContainer (fst ?u)"
      using h updateAuthUI_ok(4)[OF h0, of "JBool False"] by (simp add: hasAlertContainer_def)
    have a_eq: "?a = showAlert (fst ?u) (JStr SESSION_EXPIRED) (js ''warning'') 5000"
      using updateAuthUI_ok(1)[OF h0, of "JBool False"]
      by (cases ?u) (simp add: andThen_def)
    show "snd ?R = Inr d"
      unfolding R a_eq using showAlert_ok(1)[OF hc, of SESSION_EXPIRED "js ''warning''" 5000]
      by (auto split: prod.splits)
    show "displaysAlert (fst ?R) SESSION_EXPIRED (js ''warning'')"
      unfolding fstR a_eq by (rule showAlert_ok(2)[OF hc])
  }
next
  assume a: "ok r \<and> json_body r = Some d \<and> d \<noteq> JNull \<and> d \<noteq> JUndefined \<and>
    \<not> (getProp d (js ''success'') = Inr (JBool False) \<and>
       getProp d (js ''authenticated'') = Inr (JBool False))"
  then obtain v where v: "getProp d (js ''success'') = Inr v"
    using getProp_not_null by blast
  show R: "apiRequest s url options (Some r) = (fetch s url (apiRequestInit options), Inr d)"
    using a v by (auto simp: apiRequest_def Let_def)
  show "isAuthenticated (fst (apiRequest s url options (Some r))) = isAuthenticated s"
    "auth_btn (fst (apiRequest s url options (Some r))) = auth_btn s"
    "connection_status (fst (apiRequest s url options (Some r))) = connection_status s"
    unfolding R by simp_all
next
  assume "\<not> ok r"
  then show "apiRequest s url options (Some r) =
        (fetch s url (apiRequestInit options), Inl (HttpError (status r)))"
    by (simp add: apiRequest_def Let_def)
qed

theorem apiRequest_forced_logout_witness:
  "ok (jsonResponse 200 unauthenticatedBody) \<and>
   getProp unauthenticatedBody (js ''success'') = Inr (JBool False) \<and>
   getProp unauthenticatedBody (js ''authenticated'') = Inr (JBool False) \<and>
   hasAuthControls authenticated_page \<and> hasAlertContainer authenticated_page \<and>
   isAuthenticated (fst (apiRequest authenticated_page (js ''/api/account/balance'') no_options
      (Some (jsonResponse 200 unauthenticatedBody)))) = JBool False \<and>
   showsLoginUI (fst (apiRequest authenticated_page (js ''/api/account/balance'') no_options
      (Some (jsonResponse 200 unauthenticatedBody)))) \<and>
   snd (apiRequest authenticated_page (js ''/api/account/balance'') no_options
      (Some (jsonResponse 200 unauthenticatedBody))) = Inr unauthenticatedBody \<and>
   getProp confirmedBody (js ''success'') \<noteq> Inr (JBool False) \<and>
   apiRequest authenticated_page (js ''/api/account/balance'') no_options
      (Some (jsonResponse 200 confirmedBody)) =
     (fetch authenticated_page (js ''/api/account/balance'') (apiRequestInit no_options),
      Inr confirmedBody) \<and>
   \<not> ok (jsonResponse 401 unauthenticatedBody) \<and>
   apiRequest authenticated_page (js ''/api/account/balance'') no_options
      (Some (jsonResponse 401 unauthenticatedBody)) =
     (fetch authenticated_page (js ''/api/account/balance'') (apiRequestInit no_options),
      Inl (HttpError 401))"
  using apiRequest_forced_logout[where r = "jsonResponse 200 unauthenticatedBody"
      and d = unauthenticatedBody and s = authenticated_page
      and url = "js ''/api/account/balance''" and options = no_options]
    apiRequest_forced_logout[where r = "jsonResponse 200 confirmedBody"
      and d = confirmedBody and s = authenticated_page
      and url = "js ''/api/account/balance''" and options = no_options]
    apiRequest_forced_logout[where r = "jsonResponse 401 unauthenticatedBody"
      and d = unauthenticatedBody and s = authenticated_page
      and url = "js ''/api/account/balance''" and options = no_options]
  by (simp add: jsonResponse_def unauthenticatedBody_def confirmedBody_def
      authenticated_page_def loaded_page_def hasAuthControls_def hasAlertContainer_def js_def)

text \<open>
  Claim C1 as stated fails on a response with status 401: the body reports
  \<^verbatim>\<open>success\<close> and \<^verbatim>\<open>authenticated\<close> \<^verbatim>\<open>false\<close>, and the session stays authenticated on
  the client, the controls are as before and the call raises the HTTP error. It also fails
  on a response with status 200 and the body \<^verbatim>\<open>null\<close>, which is not returned: reading
  \<^verbatim>\<open>data.success\<close> raises a TypeError.
\<close>

theorem apiRequest_not_ok_counterexample:
  "ok (jsonResponse 401 unauthenticatedBody) = False \<and>
   getProp unauthenticatedBody (js ''success'') = Inr (JBool False) \<and>
   getProp unauthenticatedBody (js ''authenticated'') = Inr (JBool False) \<and>
   isAuthenticated (fst (apiRequest authenticated_page (js ''/api/account/balance'') no_options
      (Some (jsonResponse 401 unauthenticatedBody)))) = JBool True \<and>
   auth_btn (fst (apiRequest authenticated_page (js ''/api/account/balance'') no_options
      (Some (jsonResponse 401 unauthenticatedBody)))) = auth_btn authenticated_page \<and>
   snd (apiRequest authenticated_page (js ''/api/account/balance'') no_options
      (Some (jsonResponse 401 unauthenticatedBody))) = Inl (HttpError 401) \<and>
   snd (apiRequest authenticated_page (js ''/api/account/balance'') no_options
      (Some (jsonResponse 200 JNull))) = Inl TypeError"
  by (simp add: apiRequest_def jsonResponse_def unauthenticatedBody_def fetch_def
      authenticated_page_def loaded_page_def js_def)

section \<open>Order validation\<close>

text \<open>
  Claim C2. An order request that violates an invariant (malformed symbol code,
  non-positive quantity or non-positive price) gets a validation error, and nothing is sent
  to the broker.
\<close>

theorem invalid_order_rejected:
  "\<not> valid_order req \<longrightarrow> (\<exists>f. placeOrder broker sent req = (ValidationError f, sent))"
  by (auto simp: valid_order_def placeOrder_def)

theorem invalid_order_rejected_witness:
  "\<not> valid_order zero_quantity_order \<and>
   (\<exists>f. placeOrder (\<lambda>req. True) [] zero_quantity_order = (ValidationError f, []))"
  using invalid_order_rejected[of zero_quantity_order "\<lambda>req. True" "[]"]
  by (simp add: valid_order_def zero_quantity_order_def)

section \<open>Logout\<close>

text \<open>
  Claim C3. On the server, as the specification describes it: after a logout the status
  reports \<^verbatim>\<open>authenticated: false\<close> whatever the session was, the logout reports success,
  and a second logout gives the same state and the same successful result. In the client,
  in both versions: a logout response whose \<^verbatim>\<open>success\<close> is \<^verbatim>\<open>true\<close> leaves
  \<^verbatim>\<open>isAuthenticated\<close> \<^verbatim>\<open>false\<close> whatever the state was, also when the logout is performed
  a second time; and the status check that \<^verbatim>\<open>part_000\<close> makes half a second later keeps it
  \<^verbatim>\<open>false\<close> when the server answers with the status after its logout.
\<close>

theorem logout_clears_authentication:
  "session_status (fst (session_logout st)) = False \<and>
   result_success (snd (session_logout st)) \<and>
   session_logout (fst (session_logout st)) = session_logout st \<and>
   (json_body r = Some d \<and> getProp d (js ''success'') = Inr (JBool True) \<longrightarrow>
      isAuthenticated (fst (logout s True (Some r))) = JBool False \<and>
      isAuthenticated (fst (logout (fst (logout s True (Some r))) True (Some r))) = JBool False \<and>
      isAuthenticated (fst (logout_part000 s True (Some r))) = JBool False \<and>
      isAuthenticated (fst (logout_part000 (fst (logout_part000 s True (Some r))) True (Some r)))
        = JBool False) \<and>
   (json_body r' = Some (statusBody (session_status (fst (session_logout st)))) \<longrightarrow>
      isAuthenticated (logout_timeout_part000 t (Some r')) = JBool False)"
proof (intro conjI impI)
  show "session_status (fst (session_logout st)) = False"
    by (simp add: session_logout_def session_status_def)
  show "result_success (snd (session_logout st))"
    by (simp add: session_logout_def)
  show "session_logout (fst (session_logout st)) = session_logout st"
    by (simp add: session_logout_def)
next
  assume a: "json_body r = Some d \<and> getProp d (js ''success'') = Inr (JBool True)"
  then have b: "json_body r = Some d" and c: "getProp d (js ''success'') = Inr (JBool True)"
    by simp_all
  show "isAuthenticated (fst (logout s True (Some r))) = JBool False"
    "isAuthenticated (fst (logout (fst (logout s True (Some r))) True (Some r))) = JBool False"
    "isAuthenticated (fst (logout_part000 s True (Some r))) = JBool False"
    "isAuthenticated (fst (logout_part000 (fst (logout_part000 s True (Some r))) True (Some r)))
        = JBool False"
    by (rule logout_success[OF b c])+
next
  assume "json_body r' = Some (statusBody (session_status (fst (session_logout st))))"
  then have "json_body r' = Some (statusBody False)"
    by (simp add: session_logout_def session_status_def)
  then show "isAuthenticated (logout_timeout_part000 t (Some r')) = JBool False"
    by (rule recheck_after_logout)
qed

theorem logout_clears_authentication_witness:
  "session_status (Some sample_session) \<and>
   \<not> session_status (fst (session_logout (Some sample_session))) \<and>
   getProp loggedOutBody (js ''success'') = Inr (JBool True) \<and>
   isAuthenticated authenticated_page = JBool True \<and>
   isAuthenticated (fst (logout authenticated_page True (Some (jsonResponse 200 loggedOutBody))))
     = JBool False \<and>
   isAuthenticated (fst (logout_part000 authenticated_page True
       (Some (jsonResponse 200 loggedOutBody)))) = JBool False \<and>
   isAuthenticated (logout_timeout_part000 authenticated_page
       (Some (jsonResponse 200 (statusBody False)))) = JBool False"
  using logout_clears_authentication[where st = "Some sample_session"
      and r = "jsonResponse 200 loggedOutBody" and d = loggedOutBody
      and s = authenticated_page and t = authenticated_page
      and r' = "jsonResponse 200 (statusBody False)"]
  by (simp add: session_status_def session_logout_def sample_session_def loggedOutBody_def
      authResultBody_def jsonResponse_def authenticated_page_def loaded_page_def js_def)

section \<open>Auto refresh\<close>

text \<open>
  Claim C4. \<^verbatim>\<open>setupAutoRefresh\<close> registers one interval timer whose period is a constant
  between 30 and 60 seconds. A tick of the timer either does nothing or calls
  \<^verbatim>\<open>refreshDashboard\<close> once; it calls it only when \<^verbatim>\<open>isAuthenticated\<close> is truthy, and
  does nothing when \<^verbatim>\<open>isAuthenticated\<close> is \<^verbatim>\<open>false\<close>.
\<close>

theorem auto_refresh_gated:
  "intervals (setupAutoRefresh s) = intervals s @ [(AUTO_REFRESH_MS, AutoRefresh)] \<and>
   30000 \<le> AUTO_REFRESH_MS \<and> AUTO_REFRESH_MS \<le> 60000 \<and>
   (autoRefresh_tick s = s \<or> autoRefresh_tick s = s\<lparr>trace := trace s @ [RefreshDashboard]\<rparr>) \<and>
   (trace (autoRefresh_tick s) \<noteq> trace s \<longrightarrow> truthy (isAuthenticated s)) \<and>
   (\<not> truthy (isAuthenticated s) \<longrightarrow> autoRefresh_tick s = s) \<and>
   (isAuthenticated s = JBool False \<longrightarrow> trace (autoRefresh_tick s) = trace s)"
  by (auto simp: setupAutoRefresh_def setInterval_def AUTO_REFRESH_MS_def autoRefresh_tick_def)

theorem auto_refresh_gated_witness:
  "truthy (isAuthenticated authenticated_page) \<and>
   trace (autoRefresh_tick authenticated_page) \<noteq> trace authenticated_page \<and>
   isAuthenticated loaded_page = JBool False \<and>
   trace (autoRefresh_tick loaded_page) = trace loaded_page"
  using auto_refresh_gated[of authenticated_page] auto_refresh_gated[of loaded_page]
  by (simp add: authenticated_page_def loaded_page_def autoRefresh_tick_def)

section \<open>Login\<close>




section \<open>Quote lookup from the stock-code field\<close>

text \<open>
  Claim C6, as amended. The listener of the stock-code field sends no request for a value
  of fewer than six code units, and sends a request to \<^verbatim>\<open>/api/quote/stock/\<close> followed by
  the value for every value of six or more code units, whatever its characters.
\<close>

theorem quote_lookup_by_length:
  "(length v < 6 \<longrightarrow> stockCodeInput_listener s v outcome = s) \<and>
   (6 \<le> length v \<longrightarrow>
      (\<exists>later. trace (stockCodeInput_listener s v outcome) =
         trace s @ Fetch (js ''/api/quote/stock/'' @ v) plainGet # later))"
  by (auto simp: stockCodeInput_listener_def searchStockInfo_def Let_def displayStockInfo_def
      split: option.splits sum.splits)

theorem quote_lookup_by_length_witness:
  "length (js ''00593'') < 6 \<and>
   stockCodeInput_listener loaded_page (js ''00593'') None = loaded_page \<and>
   6 \<le> length (js ''005930'') \<and>
   (\<exists>later. trace (stockCodeInput_listener loaded_page (js ''005930'') None) =
      trace loaded_page @ Fetch (js ''/api/quote/stock/'' @ js ''005930'') plainGet # later)"
  using quote_lookup_by_length[of "js ''00593''" loaded_page None]
    quote_lookup_by_length[of "js ''005930''" loaded_page None]
  by (simp add: js_def)

text \<open>
  Claim C6 as stated has the request sent only for a symbol code of six digits. A value of
  seven digits and a value of six letters are looked up as well.
\<close>

theorem quote_lookup_counterexample:
  "Fetch (js ''/api/quote/stock/1234567'') plainGet
     \<in> set (trace (stockCodeInput_listener loaded_page (js ''1234567'') None)) \<and>
   \<not> isSymbolCode (js ''1234567'') \<and>
   Fetch (js ''/api/quote/stock/abcdef'') plainGet
     \<in> set (trace (stockCodeInput_listener loaded_page (js ''abcdef'') None)) \<and>
   \<not> isSymbolCode (js ''abcdef'')"
  by (simp add: stockCodeInput_listener_def searchStockInfo_def fetch_def loaded_page_def
      isSymbolCode_def isDecimalDigit_def js_def)

section \<open>Push channel\<close>



section \<open>The number formatters on bad input\<close>

lemma formatNumber_cases:
  "formatNumber rt v =
     (if v = JNull \<or> v = JUndefined \<or> v = JStr [] then Inr (js ''0'')
      else case ToString rt v of
             Inl e \<Rightarrow> Inl e
           | Inr str \<Rightarrow>
               if parseFloatString rt str = NaN then Inr (js ''0'')
               else Inr (toLocaleString_koKR rt (parseFloatString rt str)))"
  by (simp add: formatNumber_def parseFloat_def split: sum.splits)

lemma formatPercentage_cases:
  "formatPercentage rt v =
     (if v = JNull \<or> v = JUndefined \<or> v = JStr [] then Inr (js ''0.00%'')
      else case ToString rt v of
             Inl e \<Rightarrow> Inl e
           | Inr str \<Rightarrow>
               if parseFloatString rt str = NaN then Inr (js ''0.00%'')
               else Inr (toFixed2 rt (parseFloatString rt str) @ js ''%''))"
  by (simp add: formatPercentage_def parseFloat_def split: sum.splits)

lemma formatNumber_part000_cases:
  "formatNumber_part000 rt v =
     (if v = JNull \<or> v = JUndefined \<or> v = JStr [] then Inr (js ''0'')
      else case ToString rt v of
             Inl e \<Rightarrow> Inl e
           | Inr str \<Rightarrow>
               if parseFloatString rt str = NaN then Inr (js ''0'')
               else Inr (toLocaleString_koKR rt (parseFloatString rt str)))"
  by (simp add: formatNumber_part000_def parseFloat_def split: sum.splits)

lemma formatPercentage_part000_cases:
  "formatPercentage_part000 rt v =
     (if v = JNull \<or> v = JUndefined \<or> v = JStr [] then Inr (js ''0.00%'')
      else case ToString rt v of
             Inl e \<Rightarrow> Inl e
           | Inr str \<Rightarrow>
               if parseFloatString rt str = NaN then Inr (js ''0.00%'')
               else Inr (toFixed2 rt (parseFloatString rt str) @ js ''%''))"
  by (simp add: formatPercentage_part000_def parseFloat_def split: sum.splits)

lemma ToString_succeeds_iff:
  "(\<exists>str. ToString rt v = Inr str) = stringConvertible v"
  "(\<exists>strs. ToStringElements rt xs = Inr strs) = stringConvertibleElements xs"
  by (induction rt v and rt xs rule: ToString_ToStringElements.induct)
     (auto split: sum.splits)

text \<open>
  Claim C8, as amended. In both versions: for \<^verbatim>\<open>null\<close>, \<^verbatim>\<open>undefined\<close>, the empty
  string and every input that \<^verbatim>\<open>parseFloat\<close> maps to NaN, in particular every string
  without a numeric prefix, \<^verbatim>\<open>formatNumber\<close> returns \<^verbatim>\<open>0\<close> and \<^verbatim>\<open>formatPercentage\<close>
  returns \<^verbatim>\<open>0.00%\<close>. Neither function raises on an input that can be converted to a
  string, which every input other than an array or an object can. \<^verbatim>\<open>formatCurrency\<close>
  returns the result of \<^verbatim>\<open>formatNumber\<close> followed by the currency word, and raises when
  \<^verbatim>\<open>formatNumber\<close> raises. The inputs that can be converted to a string are exactly the
  values that are not arrays or objects, the objects without an own property
  \<^verbatim>\<open>toString\<close>, and the arrays of such values.
\<close>

theorem formatters_on_bad_input:
  "(v = JNull \<or> v = JUndefined \<or> v = JStr [] \<or> parseFloat rt v = Inr NaN \<longrightarrow>
      formatNumber rt v = Inr (js ''0'') \<and> formatPercentage rt v = Inr (js ''0.00%'') \<and>
      formatNumber_part000 rt v = Inr (js ''0'') \<and>
      formatPercentage_part000 rt v = Inr (js ''0.00%'')) \<and>
   (\<not> startsUnsignedDecimalLiteral (dropSign (dropWhile isStrWhiteSpaceChar str)) \<longrightarrow>
      formatNumber rt (JStr str) = Inr (js ''0'') \<and>
      formatPercentage rt (JStr str) = Inr (js ''0.00%'') \<and>
      formatNumber_part000 rt (JStr str) = Inr (js ''0'') \<and>
      formatPercentage_part000 rt (JStr str) = Inr (js ''0.00%'')) \<and>
   ((\<exists>str. ToString rt v = Inr str) \<longrightarrow>
      (\<exists>out. formatNumber rt v = Inr out) \<and> (\<exists>out. formatPercentage rt v = Inr out) \<and>
      (\<exists>out. formatNumber_part000 rt v = Inr out) \<and>
      (\<exists>out. formatPercentage_part000 rt v = Inr out)) \<and>
   ((\<forall>xs. v \<noteq> JArr xs) \<and> (\<forall>kvs. v \<noteq> JObj kvs) \<longrightarrow> (\<exists>str. ToString rt v = Inr str)) \<and>
   formatCurrency rt v =
     (case formatNumber rt v of Inl e \<Rightarrow> Inl e | Inr out \<Rightarrow> Inr (out @ [0xC6D0])) \<and>
   formatCurrency_part000 rt v =
     (case formatNumber_part000 rt v of Inl e \<Rightarrow> Inl e | Inr out \<Rightarrow> Inr (out @ [0xC6D0])) \<and>
   (\<exists>str. ToString rt v = Inr str) = stringConvertible v"
proof (intro conjI impI)
  assume "v = JNull \<or> v = JUndefined \<or> v = JStr [] \<or> parseFloat rt v = Inr NaN"
  then show "formatNumber rt v = Inr (js ''0'')" "formatPercentage rt v = Inr (js ''0.00%'')"
    "formatNumber_part000 rt v = Inr (js ''0'')"
    "formatPercentage_part000 rt v = Inr (js ''0.00%'')"
    by (auto simp: formatNumber_def formatPercentage_def formatNumber_part000_def
        formatPercentage_part000_def)
next
  assume "\<not> startsUnsignedDecimalLiteral (dropSign (dropWhile isStrWhiteSpaceChar str))"
  then have "parseFloatString rt str = NaN"
    by (simp add: parseFloatString_def)
  then show "formatNumber rt (JStr str) = Inr (js ''0'')"
    "formatPercentage rt (JStr str) = Inr (js ''0.00%'')"
    "formatNumber_part000 rt (JStr str) = Inr (js ''0'')"
    "formatPercentage_part000 rt (JStr str) = Inr (js ''0.00%'')"
    by (simp_all add: formatNumber_cases formatPercentage_cases formatNumber_part000_cases
        formatPercentage_part000_cases)
next
  assume "\<exists>str. ToString rt v = Inr str"
  then show "\<exists>out. formatNumber rt v = Inr out" "\<exists>out. formatPercentage rt v = Inr out"
    "\<exists>out. formatNumber_part000 rt v = Inr out"
    "\<exists>out. formatPercentage_part000 rt v = Inr out"
    by (auto simp: formatNumber_cases formatPercentage_cases formatNumber_part000_cases
        formatPercentage_part000_cases)
next
  assume "(\<forall>xs. v \<noteq> JArr xs) \<and> (\<forall>kvs. v \<noteq> JObj kvs)"
  then show "\<exists>str. ToString rt v = Inr str"
    by (cases v) simp_all
next
  show "formatCurrency rt v =
     (case formatNumber rt v of Inl e \<Rightarrow> Inl e | Inr out \<Rightarrow> Inr (out @ [0xC6D0]))"
    by (simp add: formatCurrency_def)
  show "formatCurrency_part000 rt v =
     (case formatNumber_part000 rt v of Inl e \<Rightarrow> Inl e | Inr out \<Rightarrow> Inr (out @ [0xC6D0]))"
    by (simp add: formatCurrency_part000_def)
  show "(\<exists>str. ToString rt v = Inr str) = stringConvertible v"
    by (rule ToString_succeeds_iff(1))
qed

theorem formatters_on_bad_input_witness:
  "parseFloat sample_runtime (JStr (js ''abc'')) = Inr NaN \<and>
   formatNumber sample_runtime (JStr (js ''abc'')) = Inr (js ''0'') \<and>
   formatPercentage sample_runtime (JStr (js ''abc'')) = Inr (js ''0.00%'') \<and>
   \<not> startsUnsignedDecimalLiteral (dropSign (dropWhile isStrWhiteSpaceChar (js '' -x1''))) \<and>
   formatNumber sample_runtime (JStr (js '' -x1'')) = Inr (js ''0'') \<and>
   (\<exists>str. ToString sample_runtime (JBool True) = Inr str) \<and>
   (\<exists>out. formatNumber sample_runtime (JBool True) = Inr out)"
  using formatters_on_bad_input[of "JStr (js ''abc'')" sample_runtime "js '' -x1''"]
    formatters_on_bad_input[of "JBool True" sample_runtime "js '' -x1''"]
  by (simp add: parseFloat_def parseFloatString_def js_def isStrWhiteSpaceChar_def
      isDecimalDigit_def)

text \<open>
  Claim C8 as stated has the formatters never raise. On an object with an own property
  \<^verbatim>\<open>toString\<close>, as \<^verbatim>\<open>JSON.parse('{"toString": null}')\<close> gives, the conversion to a string
  inside \<^verbatim>\<open>parseFloat\<close> raises a TypeError, and so do the formatters.
\<close>

theorem formatters_raise_counterexample:
  "formatNumber sample_runtime (JObj [(js ''toString'', JNull)]) = Inl TypeError \<and>
   formatPercentage sample_runtime (JObj [(js ''toString'', JNull)]) = Inl TypeError \<and>
   formatNumber_part000 sample_runtime (JObj [(js ''toString'', JNull)]) = Inl TypeError"
  by (simp add: formatNumber_cases formatPercentage_cases formatNumber_part000_cases)

section \<open>Empty real-time updates\<close>

text \<open>
  Claim C9. \<^verbatim>\<open>handleRealTimeUpdate\<close>, in both versions, leaves the state as it is when
  the payload has no \<^verbatim>\<open>data\<close> field and when \<^verbatim>\<open>data\<close> has no keys; whenever it changes the
  state it has called \<^verbatim>\<open>updateRealTimeData\<close> with a truthy \<^verbatim>\<open>data\<close> of at least one key.
\<close>

theorem empty_update_ignored:
  "(getProp d (js ''data'') = Inr JUndefined \<longrightarrow>
      handleRealTimeUpdate s d = (s, None) \<and> handleRealTimeUpdate_part000 s d = (s, None)) \<and>
   (getProp d (js ''data'') = Inr v \<and> ObjectKeysLength v = Inr 0 \<longrightarrow>
      handleRealTimeUpdate s d = (s, None) \<and> handleRealTimeUpdate_part000 s d = (s, None)) \<and>
   (fst (handleRealTimeUpdate s d) \<noteq> s \<longrightarrow>
      (\<exists>v n. getProp d (js ''data'') = Inr v \<and> truthy v \<and> ObjectKeysLength v = Inr n \<and> 0 < n \<and>
         handleRealTimeUpdate s d = (updateRealTimeData s v, None))) \<and>
   (fst (handleRealTimeUpdate_part000 s d) \<noteq> s \<longrightarrow>
      (\<exists>v n. getProp d (js ''data'') = Inr v \<and> truthy v \<and> ObjectKeysLength v = Inr n \<and> 0 < n \<and>
         handleRealTimeUpdate_part000 s d = (updateRealTimeData_part000 s v, None)))"
  by (auto simp: handleRealTimeUpdate_def handleRealTimeUpdate_part000_def
      split: sum.splits if_splits)

theorem empty_update_ignored_witness:
  "getProp (JObj [(js ''type'', JStr (js ''tick''))]) (js ''data'') = Inr JUndefined \<and>
   handleRealTimeUpdate loaded_page (JObj [(js ''type'', JStr (js ''tick''))]) = (loaded_page, None) \<and>
   getProp (JObj [(js ''data'', JObj [])]) (js ''data'') = Inr (JObj []) \<and>
   ObjectKeysLength (JObj []) = Inr 0 \<and>
   handleRealTimeUpdate loaded_page (JObj [(js ''data'', JObj [])]) = (loaded_page, None) \<and>
   handleRealTimeUpdate_part000 loaded_page (JObj [(js ''data'', JObj [])]) = (loaded_page, None) \<and>
   fst (handleRealTimeUpdate loaded_page
          (JObj [(js ''data'', JObj [(js ''005930'', JNum (Finite 70000))])])) \<noteq> loaded_page \<and>
   handleRealTimeUpdate loaded_page
       (JObj [(js ''data'', JObj [(js ''005930'', JNum (Finite 70000))])]) =
     (updateRealTimeData loaded_page (JObj [(js ''005930'', JNum (Finite 70000))]), None)"
  using empty_update_ignored[of "JObj [(js ''type'', JStr (js ''tick''))]" loaded_page "JObj []"]
    empty_update_ignored[of "JObj [(js ''data'', JObj [])]" loaded_page "JObj []"]
    empty_update_ignored[of "JObj [(js ''data'', JObj [(js ''005930'', JNum (Finite 70000))])]"
      loaded_page "JObj []"]
  by (simp add: js_def handleRealTimeUpdate_def updateRealTimeData_def loaded_page_def)

section \<open>The two versions of the helpers\<close>

text \<open>
  Claim C10. The helper functions \<^verbatim>\<open>formatNumber\<close>, \<^verbatim>\<open>formatCurrency\<close>,
  \<^verbatim>\<open>formatPercentage\<close>, \<^verbatim>\<open>formatDate\<close>, \<^verbatim>\<open>formatTime\<close> and \<^verbatim>\<open>apiRequest\<close> of
  \<^verbatim>\<open>src/static/js/app.js\<close> and the functions of the same names in \<^verbatim>\<open>src/unnamed/part_000\<close>
  give the same result on every input. For \<^verbatim>\<open>apiRequest\<close> the result is the returned value
  or error together with the state it leaves; the handler that \<^verbatim>\<open>updateAuthUI\<close> puts on the
  button is compared by its name, \<^verbatim>\<open>login\<close>.
\<close>

theorem helpers_agree:
  "formatNumber_part000 rt v = formatNumber rt v \<and>
   formatCurrency_part000 rt v = formatCurrency rt v \<and>
   formatPercentage_part000 rt v = formatPercentage rt v \<and>
   formatDate_part000 rt v = formatDate rt v \<and>
   formatTime_part000 rt v = formatTime rt v \<and>
   apiRequest_part000 s url options outcome = apiRequest s url options outcome"
  unfolding formatNumber_part000_def formatNumber_def formatCurrency_part000_def
    formatCurrency_def formatPercentage_part000_def formatPercentage_def
    formatDate_part000_def formatDate_def formatTime_part000_def formatTime_def
    apiRequest_part000_def apiRequest_def updateAuthUI_part000_eq showAlert_part000_eq
  by simp

end
